theory Spec2Isabelle
  imports Main
begin

section \<open>Data model\<close>

text \<open>
  The tables of \<^verbatim>\<open>prisma/migrations/20250923111400_init/migration.sql\<close>. Times are
  \<^verbatim>\<open>Date\<close> values, read as milliseconds (\<^verbatim>\<open>getTime()\<close>). The columns no handler of
  \<^verbatim>\<open>routes/meetings.ts\<close> or \<^verbatim>\<open>services/recommendations.ts\<close> reads or writes
  (\<^verbatim>\<open>googleId\<close>, \<^verbatim>\<open>email\<close>, \<^verbatim>\<open>avatar\<close>, \<^verbatim>\<open>createdAt\<close>, \<^verbatim>\<open>updatedAt\<close>) are left out.
\<close>

record user =
  u_id :: string
  u_name :: "string option"
  u_refreshToken :: "string option"

record meeting =
  m_id :: string
  title :: string
  description :: "string option"
  subject :: "string option"
  level :: "string option"
  specialization :: "string option"
  startTime :: int
  endTime :: int
  location :: "string option"
  onlineUrl :: "string option"
  createdById :: string
  googleEventId :: "string option"

record attendee =
  a_id :: string
  meetingId :: string
  userId :: string
  status :: string

record store =
  users :: "user list"
  meetings :: "meeting list"
  attendees :: "attendee list"

text \<open>
  A meeting with \<^verbatim>\<open>include: { attendees: true, createdBy: true }\<close>. No \<^verbatim>\<open>orderBy\<close> is
  given for the attendees, so the order in which the database returns them is not
  fixed: they are a set (the rows differ by their keys).
\<close>

record full_meeting =
  fm_meeting :: meeting
  fm_attendees :: "attendee set"
  fm_createdBy :: "user option"

text \<open>
  \<^verbatim>\<open>req.user\<close>: a row of \<^verbatim>\<open>User\<close> (session login) or the object
  \<^verbatim>\<open>{ id: 'admin', role: 'admin' }\<close> of \<^verbatim>\<open>requireAuth\<close>.
\<close>

record actor =
  actor_id :: string
  actor_role :: "string option"
  actor_refreshToken :: "string option"

text \<open>JavaScript truthiness of a \<^verbatim>\<open>string | null | undefined\<close>.\<close>

definition truthy :: "string option \<Rightarrow> bool" where
  "truthy x = (case x of None \<Rightarrow> False | Some s \<Rightarrow> s \<noteq> [])"

section \<open>The store (Prisma client over the migration's schema)\<close>

text \<open>
  The error codes of the Prisma client: \<^verbatim>\<open>P2002\<close> unique constraint, \<^verbatim>\<open>P2003\<close>
  foreign key constraint, \<^verbatim>\<open>P2025\<close> record not found; \<open>PrismaValidation\<close> is the
  client's rejection of an argument (a \<^verbatim>\<open>null\<close> for a required column, an invalid
  \<^verbatim>\<open>Date\<close>); \<open>StoreFailure\<close> is an error of the database itself (the connection, the
  disk, a lock), whatever the rows are.
\<close>

datatype db_error = P2002 | P2003 | P2025 | PrismaValidation | StoreFailure

definition meeting_findUnique :: "store \<Rightarrow> string \<Rightarrow> meeting option" where
  "meeting_findUnique s i = find (\<lambda>m. m_id m = i) (meetings s)"

definition user_findUnique :: "store \<Rightarrow> string \<Rightarrow> user option" where
  "user_findUnique s i = find (\<lambda>u. u_id u = i) (users s)"

definition include_full :: "store \<Rightarrow> meeting \<Rightarrow> full_meeting" where
  "include_full s m =
     \<lparr> fm_meeting = m,
       fm_attendees = set (filter (\<lambda>a. meetingId a = m_id m) (attendees s)),
       fm_createdBy = user_findUnique s (createdById m) \<rparr>"

text \<open>
  \<^verbatim>\<open>prisma.meeting.create\<close>. The primary key is generated by the client (the
  \<^verbatim>\<open>schema.prisma\<close> that says how is not part of the sources), so the new id is an
  argument. \<^verbatim>\<open>Meeting_createdById_fkey\<close> rejects a creator that is no \<^verbatim>\<open>User\<close> row.
\<close>

definition meeting_create :: "store \<Rightarrow> meeting \<Rightarrow> db_error + store \<times> meeting" where
  "meeting_create s m =
     (if m_id m \<in> set (map m_id (meetings s)) then Inl P2002
      else if createdById m \<notin> set (map u_id (users s)) then Inl P2003
      else Inr (s\<lparr>meetings := meetings s @ [m]\<rparr>, m))"

text \<open>
  \<^verbatim>\<open>prisma.meetingAttendee.create\<close>: the primary key, the unique index
  \<^verbatim>\<open>MeetingAttendee_meetingId_userId_key\<close>, then the two foreign keys.
\<close>

definition attendee_create ::
  "store \<Rightarrow> string \<Rightarrow> string \<Rightarrow> string \<Rightarrow> string \<Rightarrow> db_error + store \<times> attendee" where
  "attendee_create s new_id mid uid st =
     (let a = \<lparr> a_id = new_id, meetingId = mid, userId = uid, status = st \<rparr> in
      if new_id \<in> set (map a_id (attendees s)) then Inl P2002
      else if (\<exists>b \<in> set (attendees s). meetingId b = mid \<and> userId b = uid) then Inl P2002
      else if mid \<notin> set (map m_id (meetings s)) \<or> uid \<notin> set (map u_id (users s)) then Inl P2003
      else Inr (s\<lparr>attendees := attendees s @ [a]\<rparr>, a))"

text \<open>\<^verbatim>\<open>prisma.meeting.update({ where: { id }, data })\<close>; \<open>f\<close> applies \<^verbatim>\<open>data\<close>.\<close>

definition meeting_update ::
  "store \<Rightarrow> string \<Rightarrow> (meeting \<Rightarrow> meeting) \<Rightarrow> db_error + store \<times> meeting" where
  "meeting_update s i f =
     (case meeting_findUnique s i of
        None \<Rightarrow> Inl P2025
      | Some m \<Rightarrow>
          Inr (s\<lparr>meetings := map (\<lambda>x. if m_id x = i then f x else x) (meetings s)\<rparr>, f m))"

definition attendee_deleteMany :: "(attendee \<Rightarrow> bool) \<Rightarrow> store \<Rightarrow> db_error + store" where
  "attendee_deleteMany P s = Inr (s\<lparr>attendees := filter (\<lambda>a. \<not> P a) (attendees s)\<rparr>)"

text \<open>
  \<^verbatim>\<open>prisma.meeting.delete\<close>; \<^verbatim>\<open>MeetingAttendee_meetingId_fkey\<close> is
  \<^verbatim>\<open>ON DELETE CASCADE\<close>.
\<close>

definition meeting_delete :: "string \<Rightarrow> store \<Rightarrow> db_error + store" where
  "meeting_delete i s =
     (case meeting_findUnique s i of
        None \<Rightarrow> Inl P2025
      | Some m \<Rightarrow>
          Inr (s\<lparr>meetings := filter (\<lambda>x. m_id x \<noteq> i) (meetings s),
                 attendees := filter (\<lambda>a. meetingId a \<noteq> i) (attendees s)\<rparr>))"

text \<open>
  \<^verbatim>\<open>prisma.$transaction([...])\<close>: the operations in order on the running state. An
  operation fails on the rows it finds, or because the database fails under it:
  \<open>fault\<close> gives, for the operations in order, the error the database raises there, if
  any. The first failure is the result: what the earlier operations did is rolled back,
  and the caller is left with the store it had.
\<close>

fun transaction ::
  "db_error option list \<Rightarrow> store \<Rightarrow> (store \<Rightarrow> db_error + store) list \<Rightarrow> db_error + store" where
  "transaction fault s [] = Inr s"
| "transaction (Some e # later) s (f # fs) = Inl e"
| "transaction (None # later) s (f # fs) =
     (case f s of Inl e \<Rightarrow> Inl e | Inr s' \<Rightarrow> transaction later s' fs)"
| "transaction [] s (f # fs) =
     (case f s of Inl e \<Rightarrow> Inl e | Inr s' \<Rightarrow> transaction [] s' fs)"

text \<open>The constraints of the schema, as a predicate on stores.\<close>

definition wf_store :: "store \<Rightarrow> bool" where
  "wf_store s \<longleftrightarrow>
     distinct (map u_id (users s)) \<and>
     distinct (map m_id (meetings s)) \<and>
     distinct (map a_id (attendees s)) \<and>
     distinct (map (\<lambda>a. (meetingId a, userId a)) (attendees s)) \<and>
     (\<forall>m \<in> set (meetings s). createdById m \<in> set (map u_id (users s))) \<and>
     (\<forall>a \<in> set (attendees s).
        meetingId a \<in> set (map m_id (meetings s)) \<and> userId a \<in> set (map u_id (users s)))"

section \<open>Responses\<close>

datatype body =
    Error string
  | Failure
  | Ok
  | Note string
  | ValidationFailed
  | Joined attendee
  | MeetingJson "full_meeting option"
  | MeetingList "full_meeting list"

text \<open>
  What a handler does with the request: it sends a status and a body, or an exception
  leaves the \<^verbatim>\<open>async\<close> handler.
\<close>

datatype outcome = Respond nat body | Unhandled db_error

text \<open>
  The effects a handler is observed by, in the order of its \<^verbatim>\<open>await\<close>s: writes to
  the store, calls of the calendar API, and \<^verbatim>\<open>console.warn\<close>.
\<close>

datatype effect =
    Db string
  | EventsInsert
  | EventsPatch string
  | EventsDelete string
  | EventsList string
  | Warn string

record result =
  r_store :: store
  r_outcome :: outcome
  r_trace :: "effect list"

definition reply :: "store \<Rightarrow> effect list \<Rightarrow> nat \<Rightarrow> body \<Rightarrow> result" where
  "reply s tr code b = \<lparr> r_store = s, r_outcome = Respond code b, r_trace = tr \<rparr>"

definition throw :: "store \<Rightarrow> effect list \<Rightarrow> db_error \<Rightarrow> result" where
  "throw s tr e = \<lparr> r_store = s, r_outcome = Unhandled e, r_trace = tr \<rparr>"

section \<open>Authentication\<close>

definition admin :: actor where
  "admin = \<lparr> actor_id = ''admin'', actor_role = Some ''admin'', actor_refreshToken = None \<rparr>"

text \<open>
  \<^verbatim>\<open>requireAuth\<close>, from \<^verbatim>\<open>process.env.ADMIN_TOKEN\<close>, the value of the
  \<^verbatim>\<open>Authorization\<close> field as \<^verbatim>\<open>req.headers.authorization\<close> holds it, and the session's
  \<^verbatim>\<open>req.user\<close>: the actor the handler runs as, or the 401 response.
\<close>

definition requireAuth :: "string option \<Rightarrow> string option \<Rightarrow> actor option \<Rightarrow> outcome + actor" where
  "requireAuth ADMIN_TOKEN auth req_user =
     (if truthy ADMIN_TOKEN \<and> (case auth of None \<Rightarrow> False | Some a \<Rightarrow> take 7 a = ''Bearer '')
         \<and> map_option (drop 7) auth = ADMIN_TOKEN
      then Inr admin
      else case req_user of
             None \<Rightarrow> Inl (Respond 401 (Error ''Not authenticated''))
           | Some u \<Rightarrow> Inr u)"

section \<open>Join\<close>

text \<open>\<^verbatim>\<open>r.post('/:id/join')\<close> after \<^verbatim>\<open>requireAuth\<close>; \<open>new_id\<close> is the key of the new row.\<close>

definition join :: "store \<Rightarrow> int \<Rightarrow> string \<Rightarrow> string \<Rightarrow> actor \<Rightarrow> result" where
  "join s now new_id i act =
     (case meeting_findUnique s i of
        None \<Rightarrow> reply s [] 404 (Error ''Not found'')
      | Some m \<Rightarrow>
          if endTime m \<le> now then reply s [] 400 (Error ''Meeting already ended'')
          else (case attendee_create s new_id i (actor_id act) ''going'' of
                  Inr (s', a) \<Rightarrow> reply s' [Db ''meetingAttendee.create''] 200 (Joined a)
                | Inl e \<Rightarrow>
                    if e = P2002 then reply s [] 200 (Note ''Already joined'')
                    else reply s [] 400 (Error ''Join failed'')))"

text \<open>\<^verbatim>\<open>r.post('/:id/leave')\<close> and \<^verbatim>\<open>r.get('/:id')\<close>.\<close>

definition leave :: "store \<Rightarrow> string \<Rightarrow> actor \<Rightarrow> result" where
  "leave s i act =
     (case attendee_deleteMany (\<lambda>a. meetingId a = i \<and> userId a = actor_id act) s of
        Inl e \<Rightarrow> throw s [] e
      | Inr s' \<Rightarrow> reply s' [Db ''meetingAttendee.deleteMany''] 200 Ok)"

definition detail :: "store \<Rightarrow> string \<Rightarrow> result" where
  "detail s i =
     (case meeting_findUnique s i of
        None \<Rightarrow> reply s [] 404 Failure
      | Some item \<Rightarrow> reply s [] 200 (MeetingJson (Some (include_full s item))))"

section \<open>Calendar adapter\<close>

text \<open>
  The Google Calendar API is outside the program: what each of its calls does is an
  argument. A call throws an error, whose \<^verbatim>\<open>code\<close> may be a number, or returns.
  One handler makes at most one \<^verbatim>\<open>insert\<close>, \<^verbatim>\<open>patch\<close> or \<^verbatim>\<open>list\<close> call;
  \<^verbatim>\<open>delete\<close> is called once per event id.
\<close>

datatype cal_error = Code nat | NoCode

datatype 'a api = Throws cal_error | Returns 'a

record calendar =
  events_insert :: "string option api"
  events_patch :: "string \<Rightarrow> unit api"
  events_delete :: "string \<Rightarrow> unit api"
  events_list :: "string option list api"

text \<open>
  \<^verbatim>\<open>createCalendarEventForMeeting\<close>: the calls made and the event id
  (\<^verbatim>\<open>res.data.id || null\<close>). Title, times and location only fill the request body.
\<close>

definition createCalendarEventForMeeting ::
  "calendar \<Rightarrow> string option \<Rightarrow> effect list \<times> string option api" where
  "createCalendarEventForMeeting cal refreshToken =
     (if \<not> truthy refreshToken then ([], Returns None)
      else case events_insert cal of
             Throws e \<Rightarrow> ([EventsInsert], Throws e)
           | Returns i \<Rightarrow> ([EventsInsert], Returns (if truthy i then i else None)))"

definition gone :: "cal_error \<Rightarrow> bool" where
  "gone e \<longleftrightarrow> e = Code 404 \<or> e = Code 410"

definition updateGoogleEvent :: "calendar \<Rightarrow> string \<Rightarrow> string \<Rightarrow> effect list \<times> unit api" where
  "updateGoogleEvent cal refreshToken eventId =
     (case events_patch cal eventId of
        Throws e \<Rightarrow> ([EventsPatch eventId], if gone e then Returns () else Throws e)
      | Returns u \<Rightarrow> ([EventsPatch eventId], Returns ()))"

definition deleteGoogleEvent :: "calendar \<Rightarrow> string \<Rightarrow> string \<Rightarrow> effect list \<times> unit api" where
  "deleteGoogleEvent cal refreshToken eventId =
     (case events_delete cal eventId of
        Throws e \<Rightarrow> ([EventsDelete eventId], if gone e then Returns () else Throws e)
      | Returns u \<Rightarrow> ([EventsDelete eventId], Returns ()))"

text \<open>The \<^verbatim>\<open>for\<close> loop of \<^verbatim>\<open>deleteGoogleEventByQuery\<close> over \<^verbatim>\<open>data.items\<close>.\<close>

fun delete_items :: "calendar \<Rightarrow> string option list \<Rightarrow> effect list \<times> unit api" where
  "delete_items cal [] = ([], Returns ())"
| "delete_items cal (None # es) = delete_items cal es"
| "delete_items cal (Some i # es) =
     (if i = [] then delete_items cal es
      else case events_delete cal i of
             Throws e \<Rightarrow>
               if gone e then (EventsDelete i # fst (delete_items cal es), snd (delete_items cal es))
               else ([EventsDelete i], Throws e)
           | Returns u \<Rightarrow> (EventsDelete i # fst (delete_items cal es), snd (delete_items cal es)))"

text \<open>The ids the loop has to delete: those of the listed events that have one.\<close>

definition event_ids :: "string option list \<Rightarrow> string list" where
  "event_ids items =
     concat (map (\<lambda>x. case x of None \<Rightarrow> [] | Some i \<Rightarrow> if i = [] then [] else [i]) items)"

definition deleteGoogleEventByQuery ::
  "calendar \<Rightarrow> string \<Rightarrow> string \<Rightarrow> effect list \<times> unit api" where
  "deleteGoogleEventByQuery cal refreshToken summary =
     (case events_list cal of
        Throws e \<Rightarrow> ([EventsList summary], Throws e)
      | Returns items \<Rightarrow>
          (EventsList summary # fst (delete_items cal items), snd (delete_items cal items)))"

text \<open>
  \<^verbatim>\<open>toISOString()\<close> throws a \<^verbatim>\<open>RangeError\<close> on a \<^verbatim>\<open>Date\<close> whose time is more than
  \<^verbatim>\<open>8.64e15\<close> milliseconds away from the epoch.
\<close>

definition toISOString_throws :: "int \<Rightarrow> bool" where
  "toISOString_throws t \<longleftrightarrow> t < - 8640000000000000 \<or> 8640000000000000 < t"

text \<open>
  \<^verbatim>\<open>deleteGoogleEventWithFallback\<close>, called without \<^verbatim>\<open>windowMinutes\<close> (so 60): by id
  when there is one, else by title within the padded window. Its \<^verbatim>\<open>catch\<close> swallows
  whatever is thrown inside.
\<close>

definition deleteGoogleEventWithFallback ::
  "calendar \<Rightarrow> user option \<Rightarrow> string option \<Rightarrow> string \<Rightarrow> int \<Rightarrow> int \<Rightarrow> effect list \<times> unit api" where
  "deleteGoogleEventWithFallback cal creator gid ttl start end =
     (case creator of
        None \<Rightarrow> ([], Returns ())
      | Some u \<Rightarrow>
          (case u_refreshToken u of
             None \<Rightarrow> ([], Returns ())
           | Some tok \<Rightarrow>
               if tok = [] then ([], Returns ())
               else
                 (let by_query =
                        (if toISOString_throws (start - 60 * 60000) then ([], Returns ())
                         else if toISOString_throws (end + 60 * 60000) then ([], Returns ())
                         else deleteGoogleEventByQuery cal tok ttl);
                      attempt =
                        (case gid of
                           None \<Rightarrow> by_query
                         | Some g \<Rightarrow> if g \<noteq> [] then deleteGoogleEvent cal tok g else by_query)
                  in (fst attempt, Returns ()))))"

section \<open>Request bodies and their validation\<close>

text \<open>
  A field of \<^verbatim>\<open>req.body\<close>: absent, \<^verbatim>\<open>null\<close> or a string. (A value of another JSON
  type fails every field's schema.)
\<close>

datatype jv = Undefined | Null | Str string

record payload =
  p_title :: jv
  p_description :: jv
  p_subject :: jv
  p_level :: jv
  p_specialization :: jv
  p_startTime :: jv
  p_endTime :: jv
  p_location :: jv
  p_onlineUrl :: jv

definition js_truthy :: "jv \<Rightarrow> bool" where
  "js_truthy v = (case v of Str t \<Rightarrow> t \<noteq> [] | _ \<Rightarrow> False)"

text \<open>
  \<^verbatim>\<open>new Date(v)\<close>: \<open>None\<close> is the invalid date (\<^verbatim>\<open>getTime()\<close> is \<^verbatim>\<open>NaN\<close>). How a
  string parses is the argument \<open>parse\<close>; \<^verbatim>\<open>new Date(null)\<close> is the epoch.
\<close>

definition new_Date :: "(string \<Rightarrow> int option) \<Rightarrow> jv \<Rightarrow> int option" where
  "new_Date parse v = (case v of Undefined \<Rightarrow> None | Null \<Rightarrow> Some 0 | Str t \<Rightarrow> parse t)"

text \<open>\<^verbatim>\<open>a > b\<close> on two \<^verbatim>\<open>getTime()\<close> values: false when either is \<^verbatim>\<open>NaN\<close>.\<close>

definition time_gt :: "int option \<Rightarrow> int option \<Rightarrow> bool" where
  "time_gt a b = (case a of None \<Rightarrow> False | Some x \<Rightarrow> (case b of None \<Rightarrow> False | Some y \<Rightarrow> y < x))"

text \<open>
  The schemas of \<^verbatim>\<open>validation/meeting.ts\<close>. \<open>iso_ok\<close> is zod's
  \<^verbatim>\<open>z.string().datetime({ offset: true })\<close>, an argument as \<open>parse\<close> is.
  \<^verbatim>\<open>z.string().optional().nullable()\<close> accepts every \<open>jv\<close>.
\<close>

definition CreateMeetingSchema :: "(string \<Rightarrow> bool) \<Rightarrow> (string \<Rightarrow> int option) \<Rightarrow> payload \<Rightarrow> bool" where
  "CreateMeetingSchema iso_ok parse v \<longleftrightarrow>
     (case p_title v of Str t \<Rightarrow> 1 \<le> length t | _ \<Rightarrow> False) \<and>
     (case p_startTime v of Str t \<Rightarrow> iso_ok t | _ \<Rightarrow> False) \<and>
     (case p_endTime v of Str t \<Rightarrow> iso_ok t | _ \<Rightarrow> False) \<and>
     time_gt (new_Date parse (p_endTime v)) (new_Date parse (p_startTime v))"

definition PatchMeetingSchema :: "(string \<Rightarrow> bool) \<Rightarrow> (string \<Rightarrow> int option) \<Rightarrow> payload \<Rightarrow> bool" where
  "PatchMeetingSchema iso_ok parse v \<longleftrightarrow>
     (case p_title v of Undefined \<Rightarrow> True | Null \<Rightarrow> False | Str t \<Rightarrow> 1 \<le> length t) \<and>
     (case p_startTime v of Undefined \<Rightarrow> True | Null \<Rightarrow> False | Str t \<Rightarrow> iso_ok t) \<and>
     (case p_endTime v of Undefined \<Rightarrow> True | Null \<Rightarrow> False | Str t \<Rightarrow> iso_ok t) \<and>
     (if js_truthy (p_startTime v) \<and> js_truthy (p_endTime v)
      then time_gt (new_Date parse (p_endTime v)) (new_Date parse (p_startTime v))
      else True)"

text \<open>\<^verbatim>\<open>validate(schema)\<close> of \<^verbatim>\<open>middlewares/validate.ts\<close>.\<close>

definition validate :: "(payload \<Rightarrow> bool) \<Rightarrow> payload \<Rightarrow> outcome + payload" where
  "validate schema b = (if schema b then Inr b else Inl (Respond 400 ValidationFailed))"

section \<open>List\<close>

text \<open>The query string of \<^verbatim>\<open>GET /\<close>, each parameter a \<^verbatim>\<open>string | undefined\<close>.\<close>

record query =
  q_subject :: "string option"
  q_level :: "string option"
  q_specialization :: "string option"
  q_q :: "string option"
  q_from :: "string option"
  q_to :: "string option"

text \<open>A condition enters \<^verbatim>\<open>where\<close> only under \<^verbatim>\<open>if (param)\<close>.\<close>

definition when_given :: "string option \<Rightarrow> (string \<Rightarrow> bool) \<Rightarrow> bool" where
  "when_given x P = (case x of None \<Rightarrow> True | Some t \<Rightarrow> if t = [] then True else P t)"

definition col_contains :: "(string \<Rightarrow> string \<Rightarrow> bool) \<Rightarrow> string option \<Rightarrow> string \<Rightarrow> bool" where
  "col_contains contains c t = (case c of None \<Rightarrow> False | Some x \<Rightarrow> contains x t)"

text \<open>
  The \<^verbatim>\<open>where\<close> object of the listing, on one row. \<open>contains x t\<close> is the database's
  \<^verbatim>\<open>{ contains: t, mode: 'insensitive' }\<close> on the value \<open>x\<close>, an argument.
\<close>

definition list_where ::
  "(string \<Rightarrow> string \<Rightarrow> bool) \<Rightarrow> (string \<Rightarrow> int option) \<Rightarrow> int \<Rightarrow> query \<Rightarrow> meeting \<Rightarrow> bool" where
  "list_where contains parse now qy m \<longleftrightarrow>
     now < endTime m \<and>
     when_given (q_subject qy) (\<lambda>t. col_contains contains (subject m) t) \<and>
     when_given (q_level qy) (\<lambda>t. level m = Some t) \<and>
     when_given (q_specialization qy) (\<lambda>t. specialization m = Some t) \<and>
     when_given (q_from qy) (\<lambda>t. case parse t of None \<Rightarrow> False | Some d \<Rightarrow> d \<le> startTime m) \<and>
     when_given (q_to qy) (\<lambda>t. case parse t of None \<Rightarrow> False | Some d \<Rightarrow> startTime m \<le> d) \<and>
     when_given (q_q qy) (\<lambda>t. contains (title m) t \<or> col_contains contains (description m) t
                               \<or> col_contains contains (subject m) t)"

definition invalid_date :: "(string \<Rightarrow> int option) \<Rightarrow> string option \<Rightarrow> bool" where
  "invalid_date parse x = (case x of None \<Rightarrow> False | Some t \<Rightarrow> t \<noteq> [] \<and> parse t = None)"

text \<open>
  \<^verbatim>\<open>r.get('/')\<close>. The client rejects an invalid \<^verbatim>\<open>Date\<close> in \<^verbatim>\<open>where\<close>, and it rejects
  \<^verbatim>\<open>mode: 'insensitive'\<close> on a connector that does not support it (\<open>mode_supported\<close>: the
  README's SQLite does not, the PostgreSQL it names for production does).
\<close>

definition list_meetings ::
  "bool \<Rightarrow> (string \<Rightarrow> string \<Rightarrow> bool) \<Rightarrow> (string \<Rightarrow> int option) \<Rightarrow> store \<Rightarrow> int \<Rightarrow> query \<Rightarrow>
   result" where
  "list_meetings mode_supported contains parse s now qy =
     (if invalid_date parse (q_from qy) then throw s [] PrismaValidation
      else if invalid_date parse (q_to qy) then throw s [] PrismaValidation
      else if (truthy (q_subject qy) \<or> truthy (q_q qy)) \<and> \<not> mode_supported
      then throw s [] PrismaValidation
      else reply s [] 200
             (MeetingList (map (include_full s)
                (sort_key startTime (filter (list_where contains parse now qy) (meetings s))))))"

text \<open>The meetings a response lists (none when the request did not answer with a list).\<close>

definition listed :: "result \<Rightarrow> meeting list" where
  "listed r =
     (case r_outcome r of
        Respond code (MeetingList items) \<Rightarrow> map fm_meeting items
      | _ \<Rightarrow> [])"

section \<open>Create\<close>

definition col :: "jv \<Rightarrow> string option" where
  "col v = (case v of Undefined \<Rightarrow> None | Null \<Rightarrow> None | Str t \<Rightarrow> Some t)"

text \<open>
  The \<^verbatim>\<open>data\<close> of \<^verbatim>\<open>prisma.meeting.create\<close>: the client rejects a missing or
  \<^verbatim>\<open>null\<close> title and an invalid \<^verbatim>\<open>Date\<close>.
\<close>

definition create_data ::
  "(string \<Rightarrow> int option) \<Rightarrow> string \<Rightarrow> payload \<Rightarrow> actor \<Rightarrow> db_error + meeting" where
  "create_data parse new_id b act =
     (case p_title b of
        Str t \<Rightarrow>
          (case new_Date parse (p_startTime b) of
             None \<Rightarrow> Inl PrismaValidation
           | Some st \<Rightarrow>
               (case new_Date parse (p_endTime b) of
                  None \<Rightarrow> Inl PrismaValidation
                | Some en \<Rightarrow>
                    Inr \<lparr> m_id = new_id, title = t, description = col (p_description b),
                          subject = col (p_subject b), level = col (p_level b),
                          specialization = col (p_specialization b),
                          startTime = st, endTime = en,
                          location = col (p_location b), onlineUrl = col (p_onlineUrl b),
                          createdById = actor_id act, googleEventId = None \<rparr>))
      | _ \<Rightarrow> Inl PrismaValidation)"

text \<open>
  The \<^verbatim>\<open>try\<close> block of Create: the calendar call, then the write of the event id;
  whatever is thrown inside is caught and logged. It yields the effects and the store.
\<close>

definition create_calendar :: "calendar \<Rightarrow> store \<Rightarrow> string \<Rightarrow> actor \<Rightarrow> effect list \<times> store" where
  "create_calendar cal s mid act =
     (case createCalendarEventForMeeting cal (actor_refreshToken act) of
        (tr, Throws e) \<Rightarrow> (tr @ [Warn ''[calendar] insert failed:''], s)
      | (tr, Returns geid) \<Rightarrow>
          if truthy geid
          then (case meeting_update s mid (\<lambda>m. m\<lparr>googleEventId := geid\<rparr>) of
                  Inl e \<Rightarrow> (tr @ [Warn ''[calendar] insert failed:''], s)
                | Inr (s', u) \<Rightarrow> (tr @ [Db ''meeting.update''], s'))
          else (tr, s))"

text \<open>
  \<^verbatim>\<open>r.post('/')\<close> after \<^verbatim>\<open>requireAuth\<close> and \<^verbatim>\<open>validate\<close>; \<open>mid\<close> and \<open>aid\<close> are the
  keys of the two new rows.
\<close>

definition create ::
  "(string \<Rightarrow> int option) \<Rightarrow> calendar \<Rightarrow> store \<Rightarrow> string \<Rightarrow> string \<Rightarrow> payload \<Rightarrow> actor \<Rightarrow> result" where
  "create parse cal s mid aid b act =
     (case create_data parse mid b act of
        Inl e \<Rightarrow> throw s [] e
      | Inr row \<Rightarrow>
          (case meeting_create s row of
             Inl e \<Rightarrow> throw s [] e
           | Inr (s1, m) \<Rightarrow>
               (case attendee_create s1 aid (m_id m) (actor_id act) ''going'' of
                  Inl e \<Rightarrow> throw s1 [Db ''meeting.create''] e
                | Inr (s2, a) \<Rightarrow>
                    (case create_calendar cal s2 (m_id m) act of
                       (tr, s3) \<Rightarrow>
                         reply s3 ([Db ''meeting.create'', Db ''meetingAttendee.create''] @ tr) 201
                           (MeetingJson (map_option (include_full s3)
                              (meeting_findUnique s3 (m_id m))))))))"

section \<open>Patch\<close>

definition set_title :: "jv \<Rightarrow> string \<Rightarrow> string" where
  "set_title v old = (case v of Str t \<Rightarrow> t | _ \<Rightarrow> old)"

definition set_col :: "jv \<Rightarrow> string option \<Rightarrow> string option" where
  "set_col v old = (case v of Undefined \<Rightarrow> old | Null \<Rightarrow> None | Str t \<Rightarrow> Some t)"

definition set_time :: "(string \<Rightarrow> int option) \<Rightarrow> jv \<Rightarrow> int \<Rightarrow> int" where
  "set_time parse v old =
     (if js_truthy v then (case new_Date parse v of None \<Rightarrow> old | Some t \<Rightarrow> t) else old)"

text \<open>
  The \<^verbatim>\<open>data\<close> of \<^verbatim>\<open>prisma.meeting.update\<close> in Patch: one spread per field,
  \<^verbatim>\<open>!== undefined\<close> for the text fields and truthiness for the two times. The client
  rejects \<^verbatim>\<open>title: null\<close> and an invalid \<^verbatim>\<open>Date\<close>, so \<open>set_time\<close> is applied to
  times that parse.
\<close>

definition patch_data :: "(string \<Rightarrow> int option) \<Rightarrow> payload \<Rightarrow> db_error + (meeting \<Rightarrow> meeting)" where
  "patch_data parse b =
     (if p_title b = Null then Inl PrismaValidation
      else if js_truthy (p_startTime b) \<and> new_Date parse (p_startTime b) = None
      then Inl PrismaValidation
      else if js_truthy (p_endTime b) \<and> new_Date parse (p_endTime b) = None
      then Inl PrismaValidation
      else Inr (\<lambda>m. m\<lparr> title := set_title (p_title b) (title m),
                        description := set_col (p_description b) (description m),
                        subject := set_col (p_subject b) (subject m),
                        level := set_col (p_level b) (level m),
                        specialization := set_col (p_specialization b) (specialization m),
                        startTime := set_time parse (p_startTime b) (startTime m),
                        endTime := set_time parse (p_endTime b) (endTime m),
                        location := set_col (p_location b) (location m),
                        onlineUrl := set_col (p_onlineUrl b) (onlineUrl m) \<rparr>))"

text \<open>The best-effort calendar update of Patch, on the meeting as read before the update.\<close>

definition patch_calendar :: "calendar \<Rightarrow> store \<Rightarrow> meeting \<Rightarrow> effect list" where
  "patch_calendar cal s m =
     (case googleEventId m of
        None \<Rightarrow> []
      | Some g \<Rightarrow>
          if g = [] then []
          else (case user_findUnique s (createdById m) of
                  None \<Rightarrow> []
                | Some u \<Rightarrow>
                    (case u_refreshToken u of
                       None \<Rightarrow> []
                     | Some tok \<Rightarrow>
                         if tok = [] then []
                         else (case updateGoogleEvent cal tok g of
                                 (tr, Throws e) \<Rightarrow> tr @ [Warn ''[calendar] update failed:'']
                               | (tr, Returns u) \<Rightarrow> tr))))"

text \<open>\<^verbatim>\<open>r.patch('/:id')\<close> after \<^verbatim>\<open>requireAuth\<close> and \<^verbatim>\<open>validate\<close>.\<close>

definition patch ::
  "(string \<Rightarrow> int option) \<Rightarrow> calendar \<Rightarrow> store \<Rightarrow> string \<Rightarrow> payload \<Rightarrow> actor \<Rightarrow> result" where
  "patch parse cal s i b act =
     (case meeting_findUnique s i of
        None \<Rightarrow> reply s [] 404 (Error ''Not found'')
      | Some m \<Rightarrow>
          (let isOwner = (createdById m = actor_id act);
               isAdmin = (actor_role act = Some ''admin'')
           in if \<not> isOwner \<and> \<not> isAdmin then reply s [] 403 (Error ''Forbidden'')
              else (case patch_data parse b of
                      Inl e \<Rightarrow> throw s [] e
                    | Inr f \<Rightarrow>
                        (case meeting_update s i f of
                           Inl e \<Rightarrow> throw s [] e
                         | Inr (s', updated) \<Rightarrow>
                             reply s' (Db ''meeting.update'' # patch_calendar cal s m) 200
                               (MeetingJson (Some (include_full s' updated)))))))"

section \<open>Delete\<close>

text \<open>
  \<^verbatim>\<open>r.delete('/:id')\<close> after \<^verbatim>\<open>requireAuth\<close>; \<open>fault\<close> is what the database does under
  the two operations of the transaction.
\<close>

definition delete ::
  "calendar \<Rightarrow> db_error option list \<Rightarrow> store \<Rightarrow> string \<Rightarrow> actor \<Rightarrow> result" where
  "delete cal fault s i act =
     (case meeting_findUnique s i of
        None \<Rightarrow> reply s [] 404 (Error ''Not found'')
      | Some m \<Rightarrow>
          (let isOwner = (createdById m = actor_id act);
               isAdmin = (actor_role act = Some ''admin'')
           in if \<not> isOwner \<and> \<not> isAdmin then reply s [] 403 (Error ''Forbidden'')
              else (let cleanup =
                          (case deleteGoogleEventWithFallback cal
                                  (user_findUnique s (createdById m)) (googleEventId m) (title m)
                                  (startTime m) (endTime m) of
                             (tr, Throws e) \<Rightarrow> tr @ [Warn ''[calendar] delete fallback failed:'']
                           | (tr, Returns u) \<Rightarrow> tr)
                    in case transaction fault s
                              [attendee_deleteMany (\<lambda>a. meetingId a = i), meeting_delete i] of
                         Inl e \<Rightarrow> throw s cleanup e
                       | Inr s' \<Rightarrow> reply s' (cleanup @ [Db ''$transaction'']) 200 Ok)))"

section \<open>Routes: the middlewares before each handler\<close>

definition stop :: "store \<Rightarrow> outcome \<Rightarrow> result" where
  "stop s r = \<lparr> r_store = s, r_outcome = r, r_trace = [] \<rparr>"

definition r_post ::
  "string option \<Rightarrow> (string \<Rightarrow> bool) \<Rightarrow> (string \<Rightarrow> int option) \<Rightarrow> calendar \<Rightarrow> store \<Rightarrow>
   string option \<Rightarrow> actor option \<Rightarrow> string \<Rightarrow> string \<Rightarrow> payload \<Rightarrow> result" where
  "r_post ADMIN_TOKEN iso_ok parse cal s auth req_user mid aid b =
     (case requireAuth ADMIN_TOKEN auth req_user of
        Inl r \<Rightarrow> stop s r
      | Inr act \<Rightarrow>
          (case validate (CreateMeetingSchema iso_ok parse) b of
             Inl r \<Rightarrow> stop s r
           | Inr b' \<Rightarrow> create parse cal s mid aid b' act))"

definition r_patch ::
  "string option \<Rightarrow> (string \<Rightarrow> bool) \<Rightarrow> (string \<Rightarrow> int option) \<Rightarrow> calendar \<Rightarrow> store \<Rightarrow>
   string option \<Rightarrow> actor option \<Rightarrow> string \<Rightarrow> payload \<Rightarrow> result" where
  "r_patch ADMIN_TOKEN iso_ok parse cal s auth req_user i b =
     (case requireAuth ADMIN_TOKEN auth req_user of
        Inl r \<Rightarrow> stop s r
      | Inr act \<Rightarrow>
          (case validate (PatchMeetingSchema iso_ok parse) b of
             Inl r \<Rightarrow> stop s r
           | Inr b' \<Rightarrow> patch parse cal s i b' act))"

definition r_delete ::
  "string option \<Rightarrow> calendar \<Rightarrow> db_error option list \<Rightarrow> store \<Rightarrow> string option \<Rightarrow> actor option \<Rightarrow>
   string \<Rightarrow> result" where
  "r_delete ADMIN_TOKEN cal fault s auth req_user i =
     (case requireAuth ADMIN_TOKEN auth req_user of
        Inl r \<Rightarrow> stop s r
      | Inr act \<Rightarrow> delete cal fault s i act)"

definition r_post_join ::
  "string option \<Rightarrow> store \<Rightarrow> int \<Rightarrow> string option \<Rightarrow> actor option \<Rightarrow> string \<Rightarrow> string \<Rightarrow> result" where
  "r_post_join ADMIN_TOKEN s now auth req_user new_id i =
     (case requireAuth ADMIN_TOKEN auth req_user of
        Inl r \<Rightarrow> stop s r
      | Inr act \<Rightarrow> join s now new_id i act)"

section \<open>Recommendations\<close>

text \<open>The interfaces of \<^verbatim>\<open>services/recommendations.ts\<close>.\<close>

record user_profile =
  pf_userId :: string
  pf_name :: "string option"
  pf_subjects :: "string list"
  pf_levels :: "string list"
  pf_specializations :: "string list"
  totalMeetingsJoined :: nat

record rec_meeting =
  rm_id :: string
  rm_title :: string
  rm_description :: "string option"
  rm_subject :: "string option"
  rm_level :: "string option"
  rm_specialization :: "string option"
  rm_startTime :: int
  attendeesCount :: nat

text \<open>A JSON value as far as a recommendation's score and reason are read.\<close>

datatype json = Jundefined | Jnull | Jnum int | Jstr string | Jother

record recommendation =
  rc_meeting :: rec_meeting
  rc_score :: json
  rc_reason :: json

text \<open>\<^verbatim>\<open>Array.from(new Set(...))\<close> over the values added in order.\<close>

definition js_Set :: "string list \<Rightarrow> string list" where
  "js_Set xs = foldl (\<lambda>acc x. if x \<in> set acc then acc else acc @ [x]) [] xs"

definition getUserProfile :: "store \<Rightarrow> string \<Rightarrow> user_profile option" where
  "getUserProfile s uid =
     (case user_findUnique s uid of
        None \<Rightarrow> None
      | Some u \<Rightarrow>
          (let attended = filter (\<lambda>a. userId a = uid) (attendees s);
               ms = List.map_filter (\<lambda>a. meeting_findUnique s (meetingId a)) attended;
               given = (\<lambda>f. js_Set (List.map_filter (\<lambda>m. if truthy (f m) then f m else None) ms))
           in Some \<lparr> pf_userId = u_id u, pf_name = u_name u,
                     pf_subjects = given subject, pf_levels = given level,
                     pf_specializations = given specialization,
                     totalMeetingsJoined = length attended \<rparr>))"

definition getAvailableMeetings :: "store \<Rightarrow> int \<Rightarrow> string \<Rightarrow> rec_meeting list" where
  "getAvailableMeetings s now uid =
     (let joinedIds = map meetingId (filter (\<lambda>a. userId a = uid) (attendees s));
          upcoming = take 20 (sort_key startTime (filter (\<lambda>m. now < endTime m) (meetings s)))
      in map (\<lambda>m. \<lparr> rm_id = m_id m, rm_title = title m, rm_description = description m,
                     rm_subject = subject m, rm_level = level m,
                     rm_specialization = specialization m, rm_startTime = startTime m,
                     attendeesCount = length (filter (\<lambda>a. meetingId a = m_id m) (attendees s)) \<rparr>)
           (filter (\<lambda>m. m_id m \<notin> set joinedIds) upcoming))"

text \<open>
  The eligible set in the words of the specification, for comparison with
  \<open>getAvailableMeetings\<close>: the meetings with \<^verbatim>\<open>endTime\<close> in the future, excluding any
  the user already attends. (The specification caps it at 20; the code cuts the
  upcoming meetings to the 20 earliest before it drops the attended ones.)
\<close>

definition spec_Eligible :: "store \<Rightarrow> int \<Rightarrow> string \<Rightarrow> meeting list" where
  "spec_Eligible s now uid =
     filter (\<lambda>m. now < endTime m \<and>
                 \<not> (\<exists>a \<in> set (attendees s). meetingId a = m_id m \<and> userId a = uid))
       (meetings s)"

text \<open>
  \<^verbatim>\<open>.sort((a, b) => b.attendeesCount - a.attendeesCount).slice(0, 5).map(...)\<close>, the
  expression of both the no-history branch and the \<^verbatim>\<open>catch\<close>; the sort is stable.
\<close>

definition popular :: "string \<Rightarrow> rec_meeting list \<Rightarrow> recommendation list" where
  "popular reason ms =
     map (\<lambda>m. \<lparr> rc_meeting = m, rc_score = Jnum 50, rc_reason = Jstr reason \<rparr>)
       (take 5 (sort_key (\<lambda>m. - int (attendeesCount m)) ms))"

text \<open>
  \<^verbatim>\<open>response.match(/\[[\s\S]*\]/)\<close>: from the first \<^verbatim>\<open>[\<close> to the last \<^verbatim>\<open>]\<close> after it.
\<close>

definition jsonMatch :: "string \<Rightarrow> string option" where
  "jsonMatch response =
     (case dropWhile (\<lambda>c. c \<noteq> CHR ''['') response of
        [] \<Rightarrow> None
      | c # rest \<Rightarrow>
          (case rev (dropWhile (\<lambda>c. c \<noteq> CHR '']'') (rev rest)) of
             [] \<Rightarrow> None
           | inner \<Rightarrow> Some (c # inner)))"

text \<open>
  An element of the array \<^verbatim>\<open>JSON.parse\<close> returns: \<^verbatim>\<open>null\<close>, or a value with its
  \<^verbatim>\<open>id\<close> (when that is a string), \<^verbatim>\<open>score\<close> and \<^verbatim>\<open>reason\<close>.
\<close>

datatype ranking = RNull | RVal "string option" json json

fun ranking_id :: "ranking \<Rightarrow> string option" where
  "ranking_id RNull = None"
| "ranking_id (RVal i sc re) = i"

text \<open>\<^verbatim>\<open>new Map(availableMeetings.map((m) => [m.id, m]))\<close>: a later entry replaces an earlier.\<close>

definition meetingMap :: "rec_meeting list \<Rightarrow> string \<Rightarrow> rec_meeting option" where
  "meetingMap ms = map_of (rev (map (\<lambda>m. (rm_id m, m)) ms))"

fun rank_entry :: "(string \<Rightarrow> rec_meeting option) \<Rightarrow> ranking \<Rightarrow> recommendation option" where
  "rank_entry mp RNull = None"
| "rank_entry mp (RVal None sc re) = None"
| "rank_entry mp (RVal (Some i) sc re) =
     map_option (\<lambda>m. \<lparr> rc_meeting = m, rc_score = sc, rc_reason = re \<rparr>) (mp i)"

text \<open>
  \<^verbatim>\<open>getRecommendations\<close>. The model's answer is the argument \<open>generateContent\<close>, on the
  profile and the meetings the prompt is built from: \<open>None\<close> when the call or
  \<^verbatim>\<open>response.text()\<close> throws. \<open>JSON_parse\<close> is \<open>None\<close> when \<^verbatim>\<open>JSON.parse\<close> throws.
  Reading \<^verbatim>\<open>r.id\<close> of a \<^verbatim>\<open>null\<close> element throws inside the \<^verbatim>\<open>try\<close> as well.
\<close>

definition getRecommendations ::
  "string option \<Rightarrow> (user_profile \<Rightarrow> rec_meeting list \<Rightarrow> string option) \<Rightarrow>
   (string \<Rightarrow> ranking list option) \<Rightarrow> store \<Rightarrow> int \<Rightarrow> string \<Rightarrow> recommendation list" where
  "getRecommendations GEMINI_API_KEY generateContent JSON_parse s now uid =
     (if \<not> truthy GEMINI_API_KEY then []
      else case getUserProfile s uid of
        None \<Rightarrow> []
      | Some profile \<Rightarrow>
          (let availableMeetings = getAvailableMeetings s now uid in
           if availableMeetings = [] then []
           else if totalMeetingsJoined profile = 0
           then popular ''Popular session you might like'' availableMeetings
           else (case generateContent profile availableMeetings of
                   None \<Rightarrow> popular ''Popular session'' availableMeetings
                 | Some response \<Rightarrow>
                     (case jsonMatch response of
                        None \<Rightarrow> []
                      | Some text \<Rightarrow>
                          (case JSON_parse text of
                             None \<Rightarrow> popular ''Popular session'' availableMeetings
                           | Some rankings \<Rightarrow>
                               if RNull \<in> set rankings
                               then popular ''Popular session'' availableMeetings
                               else List.map_filter (rank_entry (meetingMap availableMeetings))
                                      rankings)))))"

section \<open>Example data\<close>

text \<open>A small store and a few requests on which the theorems below are instantiated.\<close>

definition ex_parse :: "string \<Rightarrow> int option" where
  "ex_parse t =
     (if t = ''2025-09-24T17:00:00.000Z'' then Some 1758733200000
      else if t = ''2025-09-24T18:00:00.000Z'' then Some 1758736800000
      else if t = ''2025-09-24T19:00:00.000Z'' then Some 1758740400000
      else None)"

definition ex_iso :: "string \<Rightarrow> bool" where
  "ex_iso t = (ex_parse t \<noteq> None)"

definition ex_alice :: user where
  "ex_alice = \<lparr> u_id = ''u1'', u_name = Some ''Alice'', u_refreshToken = Some ''rt-alice'' \<rparr>"

definition ex_bob :: user where
  "ex_bob = \<lparr> u_id = ''u2'', u_name = Some ''Bob'', u_refreshToken = None \<rparr>"

definition ex_math :: meeting where
  "ex_math =
     \<lparr> m_id = ''m1'', title = ''Math Exam Prep'', description = Some ''Ch3 review'',
       subject = Some ''Math'', level = Some ''1ere'', specialization = Some ''ISI'',
       startTime = 1758733200000, endTime = 1758736800000,
       location = Some ''Library room A'', onlineUrl = None,
       createdById = ''u1'', googleEventId = Some ''g1'' \<rparr>"

definition ex_physics :: meeting where
  "ex_physics =
     \<lparr> m_id = ''m2'', title = ''Physics'', description = None,
       subject = Some ''Physics'', level = None, specialization = None,
       startTime = 1758736800000, endTime = 1758740400000,
       location = None, onlineUrl = None,
       createdById = ''u2'', googleEventId = None \<rparr>"

definition ex_store :: store where
  "ex_store =
     \<lparr> users = [ex_alice, ex_bob],
       meetings = [ex_math, ex_physics],
       attendees =
         [\<lparr> a_id = ''a1'', meetingId = ''m1'', userId = ''u1'', status = ''going'' \<rparr>,
          \<lparr> a_id = ''a2'', meetingId = ''m2'', userId = ''u2'', status = ''going'' \<rparr>,
          \<lparr> a_id = ''a3'', meetingId = ''m1'', userId = ''u2'', status = ''going'' \<rparr>] \<rparr>"

definition ex_alice_actor :: actor where
  "ex_alice_actor =
     \<lparr> actor_id = ''u1'', actor_role = None, actor_refreshToken = Some ''rt-alice'' \<rparr>"

definition ex_bob_actor :: actor where
  "ex_bob_actor = \<lparr> actor_id = ''u2'', actor_role = None, actor_refreshToken = None \<rparr>"

text \<open>A calendar whose every call throws, and one whose every call returns.\<close>

definition ex_cal_down :: calendar where
  "ex_cal_down =
     \<lparr> events_insert = Throws (Code 500), events_patch = (\<lambda>e. Throws NoCode),
       events_delete = (\<lambda>e. Throws (Code 403)), events_list = Throws NoCode \<rparr>"

definition ex_cal_up :: calendar where
  "ex_cal_up =
     \<lparr> events_insert = Returns (Some ''g9''), events_patch = (\<lambda>e. Returns ()),
       events_delete = (\<lambda>e. Returns ()), events_list = Returns [Some ''g5'', None] \<rparr>"

definition ex_query :: query where
  "ex_query =
     \<lparr> q_subject = None, q_level = None, q_specialization = None, q_q = Some [],
       q_from = Some ''2025-09-24T17:00:00.000Z'', q_to = None \<rparr>"

definition ex_no_fields :: payload where
  "ex_no_fields =
     \<lparr> p_title = Undefined, p_description = Undefined, p_subject = Undefined,
       p_level = Undefined, p_specialization = Undefined, p_startTime = Undefined,
       p_endTime = Undefined, p_location = Undefined, p_onlineUrl = Undefined \<rparr>"

text \<open>A patch of the title, with an empty description and a \<^verbatim>\<open>null\<close> subject.\<close>

definition ex_patch_text :: payload where
  "ex_patch_text =
     ex_no_fields\<lparr> p_title := Str ''Algebra'', p_description := Str [], p_subject := Null \<rparr>"

text \<open>A patch of the start time alone, to an hour after the stored end of \<open>ex_math\<close>.\<close>

definition ex_patch_start :: payload where
  "ex_patch_start = ex_no_fields\<lparr> p_startTime := Str ''2025-09-24T19:00:00.000Z'' \<rparr>"

text \<open>The body of the README's example request.\<close>

definition ex_create :: payload where
  "ex_create =
     \<lparr> p_title = Str ''Math Exam Prep'', p_description = Str ''Ch3 review'',
       p_subject = Str ''Math'', p_level = Str ''1ere'', p_specialization = Str ''ISI'',
       p_startTime = Str ''2025-09-24T17:00:00.000Z'',
       p_endTime = Str ''2025-09-24T18:00:00.000Z'',
       p_location = Str ''Library room A'', p_onlineUrl = Undefined \<rparr>"

text \<open>A third meeting, starting before \<open>ex_physics\<close> and with no attendee.\<close>

definition ex_chem :: meeting where
  "ex_chem =
     \<lparr> m_id = ''m3'', title = ''Chemistry'', description = None,
       subject = Some ''Chemistry'', level = None, specialization = None,
       startTime = 1758735000000, endTime = 1758740400000,
       location = None, onlineUrl = None,
       createdById = ''u2'', googleEventId = None \<rparr>"

definition ex_store3 :: store where
  "ex_store3 = ex_store\<lparr> meetings := [ex_math, ex_physics, ex_chem] \<rparr>"

definition ex_rec :: "meeting \<Rightarrow> nat \<Rightarrow> rec_meeting" where
  "ex_rec m n =
     \<lparr> rm_id = m_id m, rm_title = title m, rm_description = description m,
       rm_subject = subject m, rm_level = level m, rm_specialization = specialization m,
       rm_startTime = startTime m, attendeesCount = n \<rparr>"

text \<open>
  A datetime check that, as zod's pattern does, accepts the offset \<^verbatim>\<open>+24:00\<close>, which
  \<^verbatim>\<open>new Date\<close> does not parse; and a patch of the title with such a start time.
\<close>

definition ex_zod :: "string \<Rightarrow> bool" where
  "ex_zod t = (ex_parse t \<noteq> None \<or> t = ''2025-09-24T19:00:00+24:00'')"


text \<open>The store with no calendar event id on \<open>ex_math\<close>.\<close>

definition ex_store_noid :: store where
  "ex_store_noid = ex_store\<lparr> meetings := [ex_math\<lparr> googleEventId := None \<rparr>, ex_physics] \<rparr>"

text \<open>
  Twenty-one upcoming meetings, of which the user \<^verbatim>\<open>u1\<close> attends the twenty earliest.
\<close>

definition ex_slot :: "nat \<Rightarrow> meeting" where
  "ex_slot k =
     \<lparr> m_id = replicate (Suc k) (CHR ''s''), title = ''Slot'', description = None,
       subject = None, level = None, specialization = None,
       startTime = int k, endTime = 100,
       location = None, onlineUrl = None,
       createdById = ''u2'', googleEventId = None \<rparr>"

definition ex_busy :: store where
  "ex_busy =
     \<lparr> users = [ex_alice, ex_bob],
       meetings = map ex_slot [0..<21],
       attendees =
         map (\<lambda>k. \<lparr> a_id = replicate (Suc k) (CHR ''a''), meetingId = m_id (ex_slot k),
                      userId = ''u1'', status = ''going'' \<rparr>) [0..<20] \<rparr>"

section \<open>Properties\<close>

lemmas ex_defs = ex_store_def ex_alice_def ex_bob_def ex_math_def ex_physics_def
  ex_alice_actor_def ex_bob_actor_def ex_parse_def ex_iso_def ex_cal_down_def ex_cal_up_def

lemma wf_ex_store: "wf_store ex_store"
  by (simp add: wf_store_def ex_defs)

lemma session_auth: "requireAuth None None (Some act) = Inr act"
  by (simp add: requireAuth_def truthy_def)

lemma count_pair_le1:
  "distinct (map f xs) \<Longrightarrow> length (filter (\<lambda>a. f a = k) xs) \<le> 1"
  by (induction xs) (auto simp: image_iff filter_empty_conv)

lemma join_new:
  assumes "meeting_findUnique s i = Some m" "now < endTime m"
    and "actor_id act \<in> set (map u_id (users s))"
    and "new_id \<notin> set (map a_id (attendees s))"
    and "\<not> (\<exists>b \<in> set (attendees s). meetingId b = i \<and> userId b = actor_id act)"
  shows "join s now new_id i act =
           reply (s\<lparr>attendees := attendees s @ [\<lparr> a_id = new_id, meetingId = i, userId = actor_id act, status = ''going'' \<rparr>]\<rparr>)
             [Db ''meetingAttendee.create''] 200
             (Joined \<lparr> a_id = new_id, meetingId = i, userId = actor_id act, status = ''going'' \<rparr>)"
proof -
  from assms(1) have "i \<in> set (map m_id (meetings s))"
    by (auto simp: meeting_findUnique_def find_Some_iff)
  with assms show ?thesis
    by (auto simp: join_def attendee_create_def Let_def)
qed

lemma join_again:
  assumes "meeting_findUnique s i = Some m" "now < endTime m"
    and "\<exists>b \<in> set (attendees s). meetingId b = i \<and> userId b = actor_id act"
  shows "join s now new_id i act = reply s [] 200 (Note ''Already joined'')"
  using assms by (simp add: join_def attendee_create_def Let_def)

subsection \<open>Join\<close>

text \<open>
  C5: Join on a meeting whose \<^verbatim>\<open>endTime\<close> is less than or equal to the current time is
  rejected with status 400 and the error \<^verbatim>\<open>Meeting already ended\<close>, and when the id
  resolves to no meeting it fails with 404 \<^verbatim>\<open>Not found\<close>; in both cases the store is
  left as it was and no write is issued, so no attendee record is created.
\<close>

theorem join_ended_or_missing:
  assumes auth: "requireAuth ADMIN_TOKEN auth req_user = Inr act"
    and ended: "meeting_findUnique s i = None \<or>
                (\<exists>m. meeting_findUnique s i = Some m \<and> endTime m \<le> now)"
  shows "r_outcome (r_post_join ADMIN_TOKEN s now auth req_user new_id i) =
           (if meeting_findUnique s i = None then Respond 404 (Error ''Not found'')
            else Respond 400 (Error ''Meeting already ended''))
         \<and> r_store (r_post_join ADMIN_TOKEN s now auth req_user new_id i) = s
         \<and> r_trace (r_post_join ADMIN_TOKEN s now auth req_user new_id i) = []"
proof -
  have route: "r_post_join ADMIN_TOKEN s now auth req_user new_id i = join s now new_id i act"
    using auth by (simp add: r_post_join_def)
  from ended show ?thesis
  proof
    assume "meeting_findUnique s i = None"
    then show ?thesis by (simp add: route join_def reply_def)
  next
    assume "\<exists>m. meeting_findUnique s i = Some m \<and> endTime m \<le> now"
    then obtain m where "meeting_findUnique s i = Some m" and "endTime m \<le> now" by blast
    then show ?thesis by (simp add: route join_def reply_def)
  qed
qed

theorem join_ended_or_missing_witness:
  "r_outcome (r_post_join None ex_store 1758740400000 None (Some ex_bob_actor) ''a4'' ''m1'') =
     Respond 400 (Error ''Meeting already ended'')
   \<and> r_store (r_post_join None ex_store 1758740400000 None (Some ex_bob_actor) ''a4'' ''m1'') = ex_store
   \<and> r_outcome (r_post_join None ex_store 1758740400000 None (Some ex_bob_actor) ''a4'' ''m9'') =
     Respond 404 (Error ''Not found'')"
proof -
  have found: "meeting_findUnique ex_store ''m1'' = Some ex_math"
    by (simp add: meeting_findUnique_def ex_defs)
  have past: "endTime ex_math \<le> 1758740400000"
    by (simp add: ex_math_def)
  have missing: "meeting_findUnique ex_store ''m9'' = None"
    by (simp add: meeting_findUnique_def ex_defs)
  from found past
  have "meeting_findUnique ex_store ''m1'' = None \<or>
        (\<exists>m. meeting_findUnique ex_store ''m1'' = Some m \<and> endTime m \<le> 1758740400000)"
    by blast
  from join_ended_or_missing [OF session_auth this, where new_id = "''a4''"] found
  have one: "r_outcome (r_post_join None ex_store 1758740400000 None (Some ex_bob_actor) ''a4'' ''m1'') =
     Respond 400 (Error ''Meeting already ended'')
   \<and> r_store (r_post_join None ex_store 1758740400000 None (Some ex_bob_actor) ''a4'' ''m1'') = ex_store"
    by simp
  from missing
  have "meeting_findUnique ex_store ''m9'' = None \<or>
        (\<exists>m. meeting_findUnique ex_store ''m9'' = Some m \<and> endTime m \<le> 1758740400000)"
    by blast
  from join_ended_or_missing [OF session_auth this, where new_id = "''a4''"] missing
  have two: "r_outcome (r_post_join None ex_store 1758740400000 None (Some ex_bob_actor) ''a4'' ''m9'') =
     Respond 404 (Error ''Not found'')"
    by simp
  from one two show ?thesis by simp
qed

text \<open>
  C4, amended: for a meeting that has not ended at either call and an authenticated
  actor whose id is a row of \<^verbatim>\<open>User\<close>, two Join calls in sequence leave exactly one
  attendee record for the pair, and the second call answers 200 with the note
  \<^verbatim>\<open>Already joined\<close>. The store satisfies the schema's constraints and the key
  generated for the first call's row is fresh.
\<close>

theorem join_twice:
  assumes auth: "requireAuth ADMIN_TOKEN auth req_user = Inr act"
    and wf: "wf_store s"
    and found: "meeting_findUnique s i = Some m"
    and live1: "now1 < endTime m" and live2: "now2 < endTime m"
    and usr: "actor_id act \<in> set (map u_id (users s))"
    and fresh: "id1 \<notin> set (map a_id (attendees s))"
  shows "let r1 = r_post_join ADMIN_TOKEN s now1 auth req_user id1 i;
             r2 = r_post_join ADMIN_TOKEN (r_store r1) now2 auth req_user id2 i
         in length (filter (\<lambda>a. meetingId a = i \<and> userId a = actor_id act) (attendees (r_store r2))) = 1
            \<and> r_outcome r2 = Respond 200 (Note ''Already joined'')
            \<and> r_store r2 = r_store r1
            \<and> (r_outcome r1 = Respond 200 (Note ''Already joined'') \<or>
               r_outcome r1 = Respond 200 (Joined \<lparr> a_id = id1, meetingId = i, userId = actor_id act, status = ''going'' \<rparr>))"
proof -
  let ?mine = "\<lambda>a. meetingId a = i \<and> userId a = actor_id act"
  have route: "r_post_join ADMIN_TOKEN s' now auth req_user k i = join s' now k i act" for s' now k
    using auth by (simp add: r_post_join_def)
  show ?thesis
  proof (cases "\<exists>b \<in> set (attendees s). ?mine b")
    case True
    have r1: "join s now1 id1 i act = reply s [] 200 (Note ''Already joined'')"
      using join_again [OF found live1 True] .
    have r2: "join s now2 id2 i act = reply s [] 200 (Note ''Already joined'')"
      using join_again [OF found live2 True] .
    have "distinct (map (\<lambda>a. (meetingId a, userId a)) (attendees s))"
      using wf by (simp add: wf_store_def)
    then have "length (filter (\<lambda>a. (meetingId a, userId a) = (i, actor_id act)) (attendees s)) \<le> 1"
      by (rule count_pair_le1)
    then have le: "length (filter ?mine (attendees s)) \<le> 1" by simp
    from True have "filter ?mine (attendees s) \<noteq> []"
      by (simp add: filter_empty_conv)
    then have "0 < length (filter ?mine (attendees s))" by simp
    with le have "length (filter ?mine (attendees s)) = 1" by linarith
    then show ?thesis
      by (simp add: route r1 r2 reply_def)
  next
    case False
    let ?a = "\<lparr> a_id = id1, meetingId = i, userId = actor_id act, status = ''going'' \<rparr>"
    let ?s1 = "s\<lparr>attendees := attendees s @ [?a]\<rparr>"
    have r1: "join s now1 id1 i act = reply ?s1 [Db ''meetingAttendee.create''] 200 (Joined ?a)"
      using join_new [OF found live1 usr fresh False] .
    have found1: "meeting_findUnique ?s1 i = Some m"
      using found by (simp add: meeting_findUnique_def)
    have ex1: "\<exists>b \<in> set (attendees ?s1). ?mine b" by simp
    have r2: "join ?s1 now2 id2 i act = reply ?s1 [] 200 (Note ''Already joined'')"
      using join_again [OF found1 live2 ex1] .
    from False have "filter ?mine (attendees s) = []"
      by (simp add: filter_empty_conv)
    then have "length (filter ?mine (attendees ?s1)) = 1" by simp
    then show ?thesis
      by (simp add: route r1 r2 reply_def)
  qed
qed

theorem join_twice_witness:
  "let r1 = r_post_join None ex_store 1758733200000 None (Some ex_alice_actor) ''a4'' ''m2'';
       r2 = r_post_join None (r_store r1) 1758736800000 None (Some ex_alice_actor) ''a5'' ''m2''
   in length (filter (\<lambda>a. meetingId a = ''m2'' \<and> userId a = actor_id ex_alice_actor)
                (attendees (r_store r2))) = 1
      \<and> r_outcome r2 = Respond 200 (Note ''Already joined'')
      \<and> r_store r2 = r_store r1
      \<and> (r_outcome r1 = Respond 200 (Note ''Already joined'') \<or>
         r_outcome r1 = Respond 200 (Joined \<lparr> a_id = ''a4'', meetingId = ''m2'',
                                        userId = actor_id ex_alice_actor, status = ''going'' \<rparr>))"
proof -
  have found: "meeting_findUnique ex_store ''m2'' = Some ex_physics"
    by (simp add: meeting_findUnique_def ex_defs)
  have live1: "1758733200000 < endTime ex_physics" and live2: "1758736800000 < endTime ex_physics"
    by (simp_all add: ex_physics_def)
  have usr: "actor_id ex_alice_actor \<in> set (map u_id (users ex_store))"
    by (simp add: ex_defs)
  have fresh: "''a4'' \<notin> set (map a_id (attendees ex_store))"
    by (simp add: ex_defs)
  show ?thesis
    by (rule join_twice [OF session_auth wf_ex_store found live1 live2 usr fresh])
qed

text \<open>
  The actor of the \<^verbatim>\<open>ADMIN_TOKEN\<close> bearer has the id \<^verbatim>\<open>admin\<close>, which is no row of
  \<^verbatim>\<open>User\<close>: \<^verbatim>\<open>MeetingAttendee_userId_fkey\<close> rejects the insert with \<^verbatim>\<open>P2003\<close>, both
  calls answer 400 \<^verbatim>\<open>Join failed\<close> and no attendee record exists afterwards.
\<close>

theorem join_twice_admin_bearer:
  "requireAuth (Some ''s3cret'') (Some ''Bearer s3cret'') None = Inr admin
   \<and> meeting_findUnique ex_store ''m2'' = Some ex_physics
   \<and> 1758736800000 < endTime ex_physics
   \<and> (let r1 = r_post_join (Some ''s3cret'') ex_store 1758733200000 (Some ''Bearer s3cret'') None ''a4'' ''m2'';
           r2 = r_post_join (Some ''s3cret'') (r_store r1) 1758736800000 (Some ''Bearer s3cret'') None ''a5'' ''m2''
       in r_outcome r2 = Respond 400 (Error ''Join failed'')
          \<and> length (filter (\<lambda>a. meetingId a = ''m2'' \<and> userId a = actor_id admin) (attendees (r_store r2))) = 0)"
  by (simp add: r_post_join_def requireAuth_def truthy_def admin_def join_def meeting_findUnique_def
        attendee_create_def reply_def ex_defs)


subsection \<open>List\<close>

lemma fm_meeting_include_full: "map (fm_meeting \<circ> include_full s) ms = ms"
  by (induction ms) (simp_all add: include_full_def)

lemma listed_list_meetings:
  "listed (list_meetings mode_supported contains parse s now qy) =
     (if invalid_date parse (q_from qy) \<or> invalid_date parse (q_to qy)
         \<or> ((truthy (q_subject qy) \<or> truthy (q_q qy)) \<and> \<not> mode_supported)
      then []
      else sort_key startTime (filter (list_where contains parse now qy) (meetings s)))"
  by (auto simp: listed_def list_meetings_def throw_def reply_def fm_meeting_include_full)

text \<open>
  C3: whatever the filters, List never returns a meeting whose \<^verbatim>\<open>endTime\<close> is less than
  or equal to the query-time \<open>now\<close>, and what it returns is ordered by ascending
  \<^verbatim>\<open>startTime\<close>. When the client accepts the query (valid \<^verbatim>\<open>from\<close> and \<^verbatim>\<open>to\<close> dates,
  and a connector that supports the case-insensitive mode when \<^verbatim>\<open>subject\<close> or \<^verbatim>\<open>q\<close>
  is given) the answer is 200 with exactly the rows that satisfy the \<^verbatim>\<open>where\<close>
  object, each with its attendees and creator.
\<close>

theorem list_hides_ended_and_sorts:
  "(\<forall>m. endTime m \<le> now \<longrightarrow>
        m \<notin> set (listed (list_meetings mode_supported contains parse s now qy)))
   \<and> sorted (map startTime (listed (list_meetings mode_supported contains parse s now qy)))
   \<and> r_store (list_meetings mode_supported contains parse s now qy) = s
   \<and> (\<not> invalid_date parse (q_from qy) \<and> \<not> invalid_date parse (q_to qy)
       \<and> (mode_supported \<or> \<not> (truthy (q_subject qy) \<or> truthy (q_q qy))) \<longrightarrow>
        r_outcome (list_meetings mode_supported contains parse s now qy) =
          Respond 200 (MeetingList (map (include_full s)
            (listed (list_meetings mode_supported contains parse s now qy))))
        \<and> set (listed (list_meetings mode_supported contains parse s now qy)) =
            {m \<in> set (meetings s). list_where contains parse now qy m})"
proof (intro conjI allI impI)
  fix m :: meeting
  assume ended: "endTime m \<le> now"
  show "m \<notin> set (listed (list_meetings mode_supported contains parse s now qy))"
  proof
    assume "m \<in> set (listed (list_meetings mode_supported contains parse s now qy))"
    then have "list_where contains parse now qy m"
      by (auto simp: listed_list_meetings split: if_splits)
    then have "now < endTime m" by (simp add: list_where_def)
    with ended show False by simp
  qed
next
  show "sorted (map startTime (listed (list_meetings mode_supported contains parse s now qy)))"
    by (simp add: listed_list_meetings sorted_sort_key)
next
  show "r_store (list_meetings mode_supported contains parse s now qy) = s"
    by (simp add: list_meetings_def throw_def reply_def)
next
  assume ok: "\<not> invalid_date parse (q_from qy) \<and> \<not> invalid_date parse (q_to qy)
       \<and> (mode_supported \<or> \<not> (truthy (q_subject qy) \<or> truthy (q_q qy)))"
  then have accepted: "\<not> (invalid_date parse (q_from qy) \<or> invalid_date parse (q_to qy)
         \<or> ((truthy (q_subject qy) \<or> truthy (q_q qy)) \<and> \<not> mode_supported))"
    by blast
  from accepted
  have l: "listed (list_meetings mode_supported contains parse s now qy) =
             sort_key startTime (filter (list_where contains parse now qy) (meetings s))"
    by (simp only: listed_list_meetings if_False)
  from accepted
  show "r_outcome (list_meetings mode_supported contains parse s now qy) =
          Respond 200 (MeetingList (map (include_full s)
            (listed (list_meetings mode_supported contains parse s now qy))))"
    unfolding l by (auto simp: list_meetings_def reply_def)
  show "set (listed (list_meetings mode_supported contains parse s now qy)) =
            {m \<in> set (meetings s). list_where contains parse now qy m}"
    unfolding l by auto
qed

theorem list_hides_ended_and_sorts_witness:
  "ex_math \<notin> set (listed (list_meetings False (\<lambda>x t. x = t) ex_parse ex_store 1758736800000 ex_query))
   \<and> list_where (\<lambda>x t. x = t) ex_parse 1758736799999 ex_query ex_math
   \<and> listed (list_meetings False (\<lambda>x t. x = t) ex_parse ex_store 1758736800000 ex_query) = [ex_physics]
   \<and> listed (list_meetings False (\<lambda>x t. x = t) ex_parse ex_store 1758736799999 ex_query) =
       [ex_math, ex_physics]"
proof -
  have ended: "endTime ex_math \<le> 1758736800000"
    by (simp add: ex_math_def)
  from list_hides_ended_and_sorts
         [where now = 1758736800000 and mode_supported = False and contains = "\<lambda>x t. x = t"
            and parse = ex_parse and s = ex_store and qy = ex_query]
  have "endTime ex_math \<le> 1758736800000 \<longrightarrow>
        ex_math \<notin> set (listed (list_meetings False (\<lambda>x t. x = t) ex_parse ex_store 1758736800000 ex_query))"
    by blast
  with ended
  have hidden: "ex_math \<notin> set (listed (list_meetings False (\<lambda>x t. x = t) ex_parse ex_store 1758736800000 ex_query))"
    by simp
  have matches: "list_where (\<lambda>x t. x = t) ex_parse 1758736799999 ex_query ex_math"
    by (simp add: list_where_def when_given_def ex_query_def ex_defs)
  have at_end: "listed (list_meetings False (\<lambda>x t. x = t) ex_parse ex_store 1758736800000 ex_query) = [ex_physics]"
    by (simp add: listed_list_meetings invalid_date_def truthy_def list_where_def when_given_def
          ex_query_def ex_defs)
  have before: "listed (list_meetings False (\<lambda>x t. x = t) ex_parse ex_store 1758736799999 ex_query) =
                  [ex_math, ex_physics]"
    by (simp add: listed_list_meetings invalid_date_def truthy_def list_where_def when_given_def
          ex_query_def ex_defs)
  from hidden matches at_end before show ?thesis by simp
qed

subsection \<open>Delete\<close>

lemma fallback_never_throws:
  "snd (deleteGoogleEventWithFallback cal creator gid ttl start end) = Returns ()"
  by (simp add: deleteGoogleEventWithFallback_def Let_def split: option.split)

lemma fallback_no_token:
  assumes "creator = None \<or> (\<exists>u. creator = Some u \<and> \<not> truthy (u_refreshToken u))"
  shows "fst (deleteGoogleEventWithFallback cal creator gid ttl start end) = []"
  using assms
  by (auto simp: deleteGoogleEventWithFallback_def truthy_def split: option.splits)

lemma fallback_by_id:
  assumes "creator = Some u" "truthy (u_refreshToken u)" "gid = Some g" "g \<noteq> []"
  shows "fst (deleteGoogleEventWithFallback cal creator gid ttl start end) = [EventsDelete g]"
  using assms
  by (auto simp: deleteGoogleEventWithFallback_def deleteGoogleEvent_def truthy_def Let_def
        split: option.splits api.splits)

lemma fallback_by_query:
  assumes "creator = Some u" "truthy (u_refreshToken u)" "\<not> truthy gid"
    and "\<not> toISOString_throws (start - 60 * 60000)" "\<not> toISOString_throws (end + 60 * 60000)"
  shows "fst (deleteGoogleEventWithFallback cal creator gid ttl start end) =
           EventsList ttl #
             (case events_list cal of Throws e \<Rightarrow> [] | Returns items \<Rightarrow> fst (delete_items cal items))"
  using assms
  by (auto simp: deleteGoogleEventWithFallback_def deleteGoogleEventByQuery_def truthy_def Let_def
        split: option.splits api.splits)

lemma fallback_out_of_range:
  assumes "\<not> truthy gid"
    and "toISOString_throws (start - 60 * 60000) \<or> toISOString_throws (end + 60 * 60000)"
  shows "fst (deleteGoogleEventWithFallback cal creator gid ttl start end) = []"
  using assms
  by (auto simp: deleteGoogleEventWithFallback_def truthy_def Let_def split: option.splits)

text \<open>The loop deletes the listed ids in order and stops at the first error it rethrows.\<close>

lemma delete_items_prefix:
  "\<exists>n. fst (delete_items cal items) = map EventsDelete (take n (event_ids items))"
proof (induction items)
  case Nil
  show ?case by (simp add: event_ids_def)
next
  case (Cons x es)
  then obtain n where n: "fst (delete_items cal es) = map EventsDelete (take n (event_ids es))"
    by blast
  show ?case
  proof (cases x)
    case None
    with n show ?thesis by (auto simp: event_ids_def)
  next
    case (Some i)
    show ?thesis
    proof (cases "i = []")
      case True
      with Some n show ?thesis by (auto simp: event_ids_def)
    next
      case False
      then have ids: "event_ids (Some i # es) = i # event_ids es"
        by (simp add: event_ids_def)
      show ?thesis
      proof (cases "\<exists>e. events_delete cal i = Throws e \<and> \<not> gone e")
        case True
        with False have "fst (delete_items cal (Some i # es)) =
                           map EventsDelete (take 1 (event_ids (Some i # es)))"
          by (auto simp: ids)
        with Some show ?thesis by blast
      next
        case stay: False
        with False n have "fst (delete_items cal (Some i # es)) =
                             map EventsDelete (take (Suc n) (event_ids (Some i # es)))"
          by (auto simp: ids split: api.splits)
        with Some show ?thesis by blast
      qed
    qed
  qed
qed

lemma delete_items_all:
  "(\<And>i e. i \<in> set (event_ids items) \<Longrightarrow> events_delete cal i = Throws e \<Longrightarrow> gone e) \<Longrightarrow>
   fst (delete_items cal items) = map EventsDelete (event_ids items)"
proof (induction items)
  case Nil
  show ?case by (simp add: event_ids_def)
next
  case (Cons x es)
  have sub: "set (event_ids es) \<subseteq> set (event_ids (x # es))"
    by (auto simp: event_ids_def)
  have rest: "fst (delete_items cal es) = map EventsDelete (event_ids es)"
  proof (rule Cons.IH)
    fix i e
    assume "i \<in> set (event_ids es)" "events_delete cal i = Throws e"
    with sub show "gone e" using Cons.prems by blast
  qed
  show ?case
  proof (cases x)
    case None
    with rest show ?thesis by (simp add: event_ids_def)
  next
    case (Some i)
    show ?thesis
    proof (cases "i = []")
      case True
      with Some rest show ?thesis by (simp add: event_ids_def)
    next
      case False
      then have ids: "event_ids (Some i # es) = i # event_ids es"
        by (simp add: event_ids_def)
      have here: "gone e" if "events_delete cal i = Throws e" for e
        using Cons.prems [of i e] that Some by (simp add: ids)
      with False rest Some show ?thesis
        by (auto simp: ids split: api.splits)
    qed
  qed
qed

text \<open>The transaction of Delete: no fault under its two operations, or a first fault.\<close>

lemma delete_transaction:
  assumes "meeting_findUnique s i = Some m" and "set (take 2 fault) \<subseteq> {None}"
  shows "transaction fault s [attendee_deleteMany (\<lambda>a. meetingId a = i), meeting_delete i] =
           Inr (s\<lparr>meetings := filter (\<lambda>x. m_id x \<noteq> i) (meetings s),
                  attendees := filter (\<lambda>a. meetingId a \<noteq> i) (attendees s)\<rparr>)"
proof -
  have run: "attendee_deleteMany (\<lambda>a. meetingId a = i) s =
               Inr (s\<lparr>attendees := filter (\<lambda>a. meetingId a \<noteq> i) (attendees s)\<rparr>)"
    by (simp add: attendee_deleteMany_def)
  have del: "meeting_delete i (s\<lparr>attendees := filter (\<lambda>a. meetingId a \<noteq> i) (attendees s)\<rparr>) =
               Inr (s\<lparr>meetings := filter (\<lambda>x. m_id x \<noteq> i) (meetings s),
                      attendees := filter (\<lambda>a. meetingId a \<noteq> i) (attendees s)\<rparr>)"
    using assms(1) by (simp add: meeting_delete_def meeting_findUnique_def)
  show ?thesis
  proof (cases fault)
    case Nil
    then show ?thesis by (simp add: run del)
  next
    case (Cons x rest)
    with assms(2) have x: "x = None" by simp
    show ?thesis
    proof (cases rest)
      case Nil
      with Cons x show ?thesis by (simp add: run del)
    next
      case (Cons y more)
      with \<open>fault = x # rest\<close> assms(2) have "y = None" by simp
      with Cons \<open>fault = x # rest\<close> x show ?thesis by (simp add: run del)
    qed
  qed
qed

lemma delete_transaction_fault:
  assumes "meeting_findUnique s i = Some m"
    and "find (\<lambda>x. x \<noteq> None) (take 2 fault) = Some (Some e)"
  shows "transaction fault s [attendee_deleteMany (\<lambda>a. meetingId a = i), meeting_delete i] = Inl e"
proof -
  have run: "attendee_deleteMany (\<lambda>a. meetingId a = i) s =
               Inr (s\<lparr>attendees := filter (\<lambda>a. meetingId a \<noteq> i) (attendees s)\<rparr>)"
    by (simp add: attendee_deleteMany_def)
  show ?thesis
  proof (cases fault)
    case Nil
    with assms(2) show ?thesis by simp
  next
    case (Cons x rest)
    show ?thesis
    proof (cases x)
      case (Some e')
      with Cons assms(2) show ?thesis by simp
    next
      case None
      with Cons assms(2) obtain more where rest: "rest = Some e # more"
        by (cases rest) (auto split: if_splits)
      with Cons None show ?thesis by (simp add: run)
    qed
  qed
qed

lemma delete_authorized:
  assumes found: "meeting_findUnique s i = Some m"
    and allowed: "createdById m = actor_id act \<or> actor_role act = Some ''admin''"
  shows "delete cal fault s i act =
           (case transaction fault s [attendee_deleteMany (\<lambda>a. meetingId a = i), meeting_delete i] of
              Inl e \<Rightarrow>
                throw s (fst (deleteGoogleEventWithFallback cal (user_findUnique s (createdById m))
                                (googleEventId m) (title m) (startTime m) (endTime m))) e
            | Inr s' \<Rightarrow>
                reply s' (fst (deleteGoogleEventWithFallback cal (user_findUnique s (createdById m))
                                (googleEventId m) (title m) (startTime m) (endTime m))
                          @ [Db ''$transaction'']) 200 Ok)"
proof -
  obtain tr where cleanup:
    "deleteGoogleEventWithFallback cal (user_findUnique s (createdById m)) (googleEventId m) (title m)
       (startTime m) (endTime m) = (tr, Returns ())"
    using fallback_never_throws
            [of cal "user_findUnique s (createdById m)" "googleEventId m" "title m" "startTime m" "endTime m"]
    by (cases "deleteGoogleEventWithFallback cal (user_findUnique s (createdById m)) (googleEventId m)
                 (title m) (startTime m) (endTime m)") simp
  then have tr: "fst (deleteGoogleEventWithFallback cal (user_findUnique s (createdById m))
                       (googleEventId m) (title m) (startTime m) (endTime m)) = tr"
    by simp
  from allowed have pass: "(createdById m \<noteq> actor_id act \<and> actor_role act \<noteq> Some ''admin'') = False"
    by blast
  show ?thesis
    unfolding delete_def found option.case Let_def pass if_False cleanup prod.case api.case fst_conv
    by (rule refl)
qed

lemma delete_same_for_authorized:
  assumes "meeting_findUnique s i = Some m"
    and "createdById m = actor_id act \<or> actor_role act = Some ''admin''"
    and "createdById m = actor_id act' \<or> actor_role act' = Some ''admin''"
  shows "delete cal fault s i act = delete cal fault s i act'"
  by (simp only: delete_authorized [OF assms(1) assms(2)] delete_authorized [OF assms(1) assms(3)])


lemma first_fault:
  "\<not> set xs \<subseteq> {None} \<Longrightarrow> \<exists>e. find (\<lambda>x. x \<noteq> None) xs = Some (Some e)"
  by (induction xs) auto

text \<open>
  C1: for every meeting id that resolves and every owner-or-admin actor, Delete first
  makes its calendar cleanup calls, which are pinned here (the delete of the stored
  event id; or, without one, the list call by title followed by the deletes of the
  listed ids in order; none when the creator has no refresh token), and then runs the
  local deletion as one transaction. Whatever the calendar calls do (the statement
  holds for every \<open>cal\<close>, also one whose every call throws), when the database does not
  fail the answer is 200 and the store has lost all attendee records of the meeting
  together with the meeting. When the database fails under either operation of the
  transaction, also under the second after the attendee rows were deleted, the store
  is left exactly as it was: both happen or neither.
\<close>

theorem delete_removes_meeting_and_attendees:
  assumes auth: "requireAuth ADMIN_TOKEN auth req_user = Inr act"
    and found: "meeting_findUnique s i = Some m"
    and allowed: "createdById m = actor_id act \<or> actor_role act = Some ''admin''"
  shows "let r = r_delete ADMIN_TOKEN cal fault s auth req_user i;
             tx = (if set (take 2 fault) \<subseteq> {None} then [Db ''$transaction''] else [])
         in (set (take 2 fault) \<subseteq> {None} \<longrightarrow>
               r_outcome r = Respond 200 Ok
               \<and> meetings (r_store r) = filter (\<lambda>x. m_id x \<noteq> i) (meetings s)
               \<and> attendees (r_store r) = filter (\<lambda>a. meetingId a \<noteq> i) (attendees s)
               \<and> users (r_store r) = users s
               \<and> meeting_findUnique (r_store r) i = None)
          \<and> (\<forall>e. find (\<lambda>x. x \<noteq> None) (take 2 fault) = Some (Some e) \<longrightarrow>
               r_outcome r = Unhandled e \<and> r_store r = s)
          \<and> (user_findUnique s (createdById m) = None \<longrightarrow> r_trace r = tx)
          \<and> (\<forall>u. user_findUnique s (createdById m) = Some u \<and> \<not> truthy (u_refreshToken u) \<longrightarrow>
               r_trace r = tx)
          \<and> (\<forall>u g. user_findUnique s (createdById m) = Some u \<and> truthy (u_refreshToken u) \<and>
                    googleEventId m = Some g \<and> g \<noteq> [] \<longrightarrow>
               r_trace r = EventsDelete g # tx)
          \<and> (\<forall>u. user_findUnique s (createdById m) = Some u \<and> truthy (u_refreshToken u) \<and>
                  \<not> truthy (googleEventId m) \<and>
                  \<not> toISOString_throws (startTime m - 60 * 60000) \<and>
                  \<not> toISOString_throws (endTime m + 60 * 60000) \<longrightarrow>
               (case events_list cal of
                  Throws e \<Rightarrow> r_trace r = EventsList (title m) # tx
                | Returns items \<Rightarrow>
                    (\<exists>n. r_trace r =
                           EventsList (title m) # map EventsDelete (take n (event_ids items)) @ tx)
                    \<and> ((\<forall>k \<in> set (event_ids items). \<forall>e. events_delete cal k = Throws e \<longrightarrow> gone e) \<longrightarrow>
                         r_trace r = EventsList (title m) # map EventsDelete (event_ids items) @ tx)))
          \<and> (\<not> truthy (googleEventId m) \<and>
               (toISOString_throws (startTime m - 60 * 60000) \<or>
                toISOString_throws (endTime m + 60 * 60000)) \<longrightarrow> r_trace r = tx)"
proof -
  let ?r = "r_delete ADMIN_TOKEN cal fault s auth req_user i"
  let ?T = "if set (take 2 fault) \<subseteq> {None} then [Db ''$transaction''] else []"
  let ?calls = "fst (deleteGoogleEventWithFallback cal (user_findUnique s (createdById m))
                      (googleEventId m) (title m) (startTime m) (endTime m))"
  let ?tx = "transaction fault s [attendee_deleteMany (\<lambda>a. meetingId a = i), meeting_delete i]"
  have route: "?r = delete cal fault s i act"
    using auth by (simp add: r_delete_def)
  have handler: "delete cal fault s i act =
      (case ?tx of Inl e \<Rightarrow> throw s ?calls e
                 | Inr s' \<Rightarrow> reply s' (?calls @ [Db ''$transaction'']) 200 Ok)"
    by (rule delete_authorized [OF found allowed])
  have committed:
    "r_outcome ?r = Respond 200 Ok
     \<and> meetings (r_store ?r) = filter (\<lambda>x. m_id x \<noteq> i) (meetings s)
     \<and> attendees (r_store ?r) = filter (\<lambda>a. meetingId a \<noteq> i) (attendees s)
     \<and> users (r_store ?r) = users s
     \<and> meeting_findUnique (r_store ?r) i = None
     \<and> r_trace ?r = ?calls @ [Db ''$transaction'']"
    if ok: "set (take 2 fault) \<subseteq> {None}"
  proof -
    have "?tx = Inr (s\<lparr>meetings := filter (\<lambda>x. m_id x \<noteq> i) (meetings s),
                       attendees := filter (\<lambda>a. meetingId a \<noteq> i) (attendees s)\<rparr>)"
      by (rule delete_transaction [OF found ok])
    then show ?thesis
      by (simp add: route handler reply_def meeting_findUnique_def find_None_iff)
  qed
  have rolled_back: "r_outcome ?r = Unhandled e \<and> r_store ?r = s \<and> r_trace ?r = ?calls"
    if bad: "find (\<lambda>x. x \<noteq> None) (take 2 fault) = Some (Some e)" for e
  proof -
    have "?tx = Inl e"
      by (rule delete_transaction_fault [OF found bad])
    then show ?thesis
      by (simp add: route handler throw_def)
  qed
  have trace: "r_trace ?r = ?calls @ ?T"
  proof (cases "set (take 2 fault) \<subseteq> {None}")
    case True
    with committed show ?thesis by simp
  next
    case False
    then obtain e where "find (\<lambda>x. x \<noteq> None) (take 2 fault) = Some (Some e)"
      using first_fault by blast
    with rolled_back False show ?thesis by simp
  qed
  have none: "?calls = []" if "user_findUnique s (createdById m) = None"
    using that by (simp add: fallback_no_token)
  have no_token: "?calls = []"
    if "user_findUnique s (createdById m) = Some u \<and> \<not> truthy (u_refreshToken u)" for u
    using that by (simp add: fallback_no_token)
  have by_id: "?calls = [EventsDelete g]"
    if "user_findUnique s (createdById m) = Some u \<and> truthy (u_refreshToken u) \<and>
        googleEventId m = Some g \<and> g \<noteq> []" for u g
    using that by (simp add: fallback_by_id)
  have by_query:
    "case events_list cal of
       Throws e \<Rightarrow> r_trace ?r = EventsList (title m) # ?T
     | Returns items \<Rightarrow>
         (\<exists>n. r_trace ?r = EventsList (title m) # map EventsDelete (take n (event_ids items)) @ ?T)
         \<and> ((\<forall>k \<in> set (event_ids items). \<forall>e. events_delete cal k = Throws e \<longrightarrow> gone e) \<longrightarrow>
              r_trace ?r = EventsList (title m) # map EventsDelete (event_ids items) @ ?T)"
    if h: "user_findUnique s (createdById m) = Some u \<and> truthy (u_refreshToken u) \<and>
           \<not> truthy (googleEventId m) \<and>
           \<not> toISOString_throws (startTime m - 60 * 60000) \<and>
           \<not> toISOString_throws (endTime m + 60 * 60000)" for u
  proof -
    from h have calls: "?calls = EventsList (title m) #
             (case events_list cal of Throws e \<Rightarrow> [] | Returns items \<Rightarrow> fst (delete_items cal items))"
      by (simp add: fallback_by_query)
    show ?thesis
    proof (cases "events_list cal")
      case (Throws e)
      with calls show ?thesis by (simp add: trace)
    next
      case (Returns items)
      obtain n where "fst (delete_items cal items) = map EventsDelete (take n (event_ids items))"
        using delete_items_prefix [of cal items] by blast
      with calls Returns
      have pre: "\<exists>n. r_trace ?r = EventsList (title m) # map EventsDelete (take n (event_ids items)) @ ?T"
        unfolding trace by auto
      have all: "r_trace ?r = EventsList (title m) # map EventsDelete (event_ids items) @ ?T"
        if "\<forall>k \<in> set (event_ids items). \<forall>e. events_delete cal k = Throws e \<longrightarrow> gone e"
        using that calls Returns delete_items_all [of items cal] unfolding trace by simp
      from pre all Returns show ?thesis by simp
    qed
  qed
  have out: "?calls = []"
    if "\<not> truthy (googleEventId m) \<and>
        (toISOString_throws (startTime m - 60 * 60000) \<or> toISOString_throws (endTime m + 60 * 60000))"
    using that by (simp add: fallback_out_of_range)
  show ?thesis
    unfolding Let_def
  proof (intro conjI allI impI)
    fix e assume "find (\<lambda>x. x \<noteq> None) (take 2 fault) = Some (Some e)"
    with rolled_back show "r_outcome ?r = Unhandled e" and "r_store ?r = s" by blast+
  next
    fix u assume "user_findUnique s (createdById m) = Some u \<and> truthy (u_refreshToken u) \<and>
                  \<not> truthy (googleEventId m) \<and>
                  \<not> toISOString_throws (startTime m - 60 * 60000) \<and>
                  \<not> toISOString_throws (endTime m + 60 * 60000)"
    then show "case events_list cal of
       Throws e \<Rightarrow> r_trace ?r = EventsList (title m) # ?T
     | Returns items \<Rightarrow>
         (\<exists>n. r_trace ?r = EventsList (title m) # map EventsDelete (take n (event_ids items)) @ ?T)
         \<and> ((\<forall>k \<in> set (event_ids items). \<forall>e. events_delete cal k = Throws e \<longrightarrow> gone e) \<longrightarrow>
              r_trace ?r = EventsList (title m) # map EventsDelete (event_ids items) @ ?T)"
      by (rule by_query)
  qed (use committed none no_token by_id out in \<open>simp_all add: trace\<close>)
qed

theorem delete_removes_meeting_and_attendees_witness:
  "r_outcome (r_delete None ex_cal_down [] ex_store None (Some ex_alice_actor) ''m1'') = Respond 200 Ok
   \<and> meetings (r_store (r_delete None ex_cal_down [] ex_store None (Some ex_alice_actor) ''m1'')) = [ex_physics]
   \<and> attendees (r_store (r_delete None ex_cal_down [] ex_store None (Some ex_alice_actor) ''m1'')) =
       [\<lparr> a_id = ''a2'', meetingId = ''m2'', userId = ''u2'', status = ''going'' \<rparr>]
   \<and> r_trace (r_delete None ex_cal_down [] ex_store None (Some ex_alice_actor) ''m1'') =
       [EventsDelete ''g1'', Db ''$transaction'']
   \<and> events_delete ex_cal_down ''g1'' = Throws (Code 403)
   \<and> r_outcome (r_delete None ex_cal_down [None, Some StoreFailure] ex_store None (Some ex_alice_actor) ''m1'') =
       Unhandled StoreFailure
   \<and> r_store (r_delete None ex_cal_down [None, Some StoreFailure] ex_store None (Some ex_alice_actor) ''m1'') =
       ex_store
   \<and> r_trace (r_delete None ex_cal_down [None, Some StoreFailure] ex_store None (Some ex_alice_actor) ''m1'') =
       [EventsDelete ''g1'']
   \<and> r_trace (r_delete None ex_cal_up [] ex_store_noid None (Some ex_alice_actor) ''m1'') =
       [EventsList ''Math Exam Prep'', EventsDelete ''g5'', Db ''$transaction'']
   \<and> meeting_findUnique (r_store (r_delete None ex_cal_up [] ex_store_noid None (Some ex_alice_actor) ''m1''))
       ''m1'' = None"
proof -
  have found: "meeting_findUnique ex_store ''m1'' = Some ex_math"
    by (simp add: meeting_findUnique_def ex_defs)
  have allowed: "createdById ex_math = actor_id ex_alice_actor \<or> actor_role ex_alice_actor = Some ''admin''"
    by (simp add: ex_defs)
  have creator: "user_findUnique ex_store (createdById ex_math) = Some ex_alice"
    by (simp add: user_findUnique_def ex_defs)
  have token: "truthy (u_refreshToken ex_alice)" "googleEventId ex_math = Some ''g1''"
    by (simp_all add: truthy_def ex_defs)
  have rows: "filter (\<lambda>x. m_id x \<noteq> ''m1'') (meetings ex_store) = [ex_physics]"
    "filter (\<lambda>a. meetingId a \<noteq> ''m1'') (attendees ex_store) =
       [\<lparr> a_id = ''a2'', meetingId = ''m2'', userId = ''u2'', status = ''going'' \<rparr>]"
    by (simp_all add: ex_defs)
  note commit = delete_removes_meeting_and_attendees
          [OF session_auth found allowed, where fault = "[]" and cal = ex_cal_down, unfolded Let_def]
  from commit creator token rows
  have removed:
    "r_outcome (r_delete None ex_cal_down [] ex_store None (Some ex_alice_actor) ''m1'') = Respond 200 Ok
     \<and> meetings (r_store (r_delete None ex_cal_down [] ex_store None (Some ex_alice_actor) ''m1'')) = [ex_physics]
     \<and> attendees (r_store (r_delete None ex_cal_down [] ex_store None (Some ex_alice_actor) ''m1'')) =
         [\<lparr> a_id = ''a2'', meetingId = ''m2'', userId = ''u2'', status = ''going'' \<rparr>]
     \<and> r_trace (r_delete None ex_cal_down [] ex_store None (Some ex_alice_actor) ''m1'') =
         [EventsDelete ''g1'', Db ''$transaction'']"
    by simp
  note rollback = delete_removes_meeting_and_attendees
          [OF session_auth found allowed, where fault = "[None, Some StoreFailure]" and cal = ex_cal_down,
           unfolded Let_def]
  from rollback creator token
  have kept:
    "r_outcome (r_delete None ex_cal_down [None, Some StoreFailure] ex_store None (Some ex_alice_actor) ''m1'') =
       Unhandled StoreFailure
     \<and> r_store (r_delete None ex_cal_down [None, Some StoreFailure] ex_store None (Some ex_alice_actor) ''m1'') =
         ex_store
     \<and> r_trace (r_delete None ex_cal_down [None, Some StoreFailure] ex_store None (Some ex_alice_actor) ''m1'') =
         [EventsDelete ''g1'']"
    by simp
  have found': "meeting_findUnique ex_store_noid ''m1'' = Some (ex_math\<lparr>googleEventId := None\<rparr>)"
    by (simp add: meeting_findUnique_def ex_store_noid_def ex_defs)
  have allowed': "createdById (ex_math\<lparr>googleEventId := None\<rparr>) = actor_id ex_alice_actor
                  \<or> actor_role ex_alice_actor = Some ''admin''"
    by (simp add: ex_defs)
  have creator': "user_findUnique ex_store_noid (createdById (ex_math\<lparr>googleEventId := None\<rparr>)) = Some ex_alice"
    by (simp add: user_findUnique_def ex_store_noid_def ex_defs)
  have range: "\<not> truthy (googleEventId (ex_math\<lparr>googleEventId := None\<rparr>))"
    "\<not> toISOString_throws (startTime (ex_math\<lparr>googleEventId := None\<rparr>) - 60 * 60000)"
    "\<not> toISOString_throws (endTime (ex_math\<lparr>googleEventId := None\<rparr>) + 60 * 60000)"
    "title (ex_math\<lparr>googleEventId := None\<rparr>) = ''Math Exam Prep''"
    by (simp_all add: truthy_def toISOString_throws_def ex_defs)
  have listed_ids: "events_list ex_cal_up = Returns [Some ''g5'', None]"
    "event_ids [Some ''g5'', None] = [''g5'']"
    "\<And>k. events_delete ex_cal_up k = Returns ()"
    by (simp_all add: event_ids_def truthy_def ex_defs)
  note query = delete_removes_meeting_and_attendees
          [OF session_auth found' allowed', where fault = "[]" and cal = ex_cal_up, unfolded Let_def]
  from query creator' token(1) range listed_ids
  have by_title:
    "r_trace (r_delete None ex_cal_up [] ex_store_noid None (Some ex_alice_actor) ''m1'') =
       [EventsList ''Math Exam Prep'', EventsDelete ''g5'', Db ''$transaction'']
     \<and> meeting_findUnique (r_store (r_delete None ex_cal_up [] ex_store_noid None (Some ex_alice_actor) ''m1''))
         ''m1'' = None"
    by simp
  have thrown: "events_delete ex_cal_down ''g1'' = Throws (Code 403)"
    by (simp add: ex_defs)
  from removed thrown kept by_title show ?thesis by simp
qed
subsection \<open>Patch\<close>

lemma find_after_update:
  "find (\<lambda>x. m_id x = i) xs = Some m \<Longrightarrow> m_id (f m) = i \<Longrightarrow>
   find (\<lambda>x. m_id x = i) (map (\<lambda>x. if m_id x = i then f x else x) xs) = Some (f m)"
  by (induction xs) (auto split: if_splits)


lemma patch_data_keeps_id:
  "patch_data parse b = Inr f \<Longrightarrow>
   m_id (f x) = m_id x \<and> createdById (f x) = createdById x \<and> googleEventId (f x) = googleEventId x"
  by (auto simp: patch_data_def split: if_splits)

lemma patch_forbidden:
  assumes "meeting_findUnique s i = Some m"
    and "createdById m \<noteq> actor_id act" and "actor_role act \<noteq> Some ''admin''"
  shows "patch parse cal s i b act = reply s [] 403 (Error ''Forbidden'')"
  using assms by (simp add: patch_def Let_def)

lemma patch_authorized:
  assumes found: "meeting_findUnique s i = Some m"
    and allowed: "createdById m = actor_id act \<or> actor_role act = Some ''admin''"
    and data: "patch_data parse b = Inr f"
  shows "patch parse cal s i b act =
           reply (s\<lparr>meetings := map (\<lambda>x. if m_id x = i then f x else x) (meetings s)\<rparr>)
             (Db ''meeting.update'' # patch_calendar cal s m) 200
             (MeetingJson (Some (include_full
                (s\<lparr>meetings := map (\<lambda>x. if m_id x = i then f x else x) (meetings s)\<rparr>) (f m))))"
  using allowed by (auto simp: patch_def Let_def found data meeting_update_def)

lemma patch_data_valid:
  assumes valid: "PatchMeetingSchema iso_ok parse b"
    and dates: "\<forall>t. (p_startTime b = Str t \<or> p_endTime b = Str t) \<and> t \<noteq> [] \<longrightarrow> parse t \<noteq> None"
  shows "patch_data parse b =
     Inr (\<lambda>m. m\<lparr> title := set_title (p_title b) (title m),
                  description := set_col (p_description b) (description m),
                  subject := set_col (p_subject b) (subject m),
                  level := set_col (p_level b) (level m),
                  specialization := set_col (p_specialization b) (specialization m),
                  startTime := set_time parse (p_startTime b) (startTime m),
                  endTime := set_time parse (p_endTime b) (endTime m),
                  location := set_col (p_location b) (location m),
                  onlineUrl := set_col (p_onlineUrl b) (onlineUrl m) \<rparr>)"
proof -
  from valid have t: "p_title b \<noteq> Null"
    by (auto simp: PatchMeetingSchema_def)
  from dates have st: "\<not> (js_truthy (p_startTime b) \<and> new_Date parse (p_startTime b) = None)"
    by (auto simp: js_truthy_def new_Date_def split: jv.splits)
  from dates have en: "\<not> (js_truthy (p_endTime b) \<and> new_Date parse (p_endTime b) = None)"
    by (auto simp: js_truthy_def new_Date_def split: jv.splits)
  from t st en show ?thesis
    by (simp add: patch_data_def)
qed



lemma patch_rejected_data:
  assumes found: "meeting_findUnique s i = Some m"
    and allowed: "createdById m = actor_id act \<or> actor_role act = Some ''admin''"
    and data: "patch_data parse b = Inl e"
  shows "patch parse cal s i b act = throw s [] e"
  using allowed by (auto simp: patch_def Let_def found data)

lemma r_patch_passes:
  assumes "requireAuth ADMIN_TOKEN auth req_user = Inr act"
    and "PatchMeetingSchema iso_ok parse b"
  shows "r_patch ADMIN_TOKEN iso_ok parse cal s auth req_user i b = patch parse cal s i b act"
  using assms by (simp add: r_patch_def validate_def)

text \<open>
  C9: for every existing meeting and every authenticated actor who is neither the
  meeting's creator nor an admin, Patch answers 403 \<^verbatim>\<open>Forbidden\<close> and leaves the store,
  hence every field of the meeting record, as it was, issuing no write and no calendar
  call. Through the route the store is unchanged as well, and the answer is the 403
  whenever the body passes the schema.
\<close>

theorem patch_forbidden_unchanged:
  assumes found: "meeting_findUnique s i = Some m"
    and not_owner: "createdById m \<noteq> actor_id act"
    and not_admin: "actor_role act \<noteq> Some ''admin''"
  shows "r_outcome (patch parse cal s i b act) = Respond 403 (Error ''Forbidden'')
       \<and> r_store (patch parse cal s i b act) = s
       \<and> r_trace (patch parse cal s i b act) = []
       \<and> (requireAuth ADMIN_TOKEN auth req_user = Inr act \<longrightarrow>
            r_store (r_patch ADMIN_TOKEN iso_ok parse cal s auth req_user i b) = s
            \<and> r_trace (r_patch ADMIN_TOKEN iso_ok parse cal s auth req_user i b) = []
            \<and> (PatchMeetingSchema iso_ok parse b \<longrightarrow>
                 r_outcome (r_patch ADMIN_TOKEN iso_ok parse cal s auth req_user i b) =
                   Respond 403 (Error ''Forbidden'')))"
proof -
  have handler: "patch parse cal s i b act = reply s [] 403 (Error ''Forbidden'')"
    by (rule patch_forbidden [OF found not_owner not_admin])
  have "r_store (r_patch ADMIN_TOKEN iso_ok parse cal s auth req_user i b) = s
        \<and> r_trace (r_patch ADMIN_TOKEN iso_ok parse cal s auth req_user i b) = []
        \<and> (PatchMeetingSchema iso_ok parse b \<longrightarrow>
             r_outcome (r_patch ADMIN_TOKEN iso_ok parse cal s auth req_user i b) =
               Respond 403 (Error ''Forbidden''))"
    if auth: "requireAuth ADMIN_TOKEN auth req_user = Inr act"
  proof (cases "PatchMeetingSchema iso_ok parse b")
    case True
    with auth handler show ?thesis
      by (simp add: r_patch_passes reply_def)
  next
    case False
    with auth show ?thesis
      by (simp add: r_patch_def validate_def stop_def)
  qed
  with handler show ?thesis
    by (simp add: reply_def)
qed


theorem patch_forbidden_unchanged_witness:
  "r_outcome (patch ex_parse ex_cal_up ex_store ''m1'' ex_patch_text ex_bob_actor) =
     Respond 403 (Error ''Forbidden'')
   \<and> r_store (patch ex_parse ex_cal_up ex_store ''m1'' ex_patch_text ex_bob_actor) = ex_store
   \<and> r_outcome (r_patch None ex_iso ex_parse ex_cal_up ex_store None (Some ex_bob_actor) ''m1'' ex_patch_text) =
     Respond 403 (Error ''Forbidden'')
   \<and> r_store (r_patch None ex_iso ex_parse ex_cal_up ex_store None (Some ex_bob_actor) ''m1'' ex_patch_text) = ex_store"
proof -
  have found: "meeting_findUnique ex_store ''m1'' = Some ex_math"
    by (simp add: meeting_findUnique_def ex_defs)
  have not_owner: "createdById ex_math \<noteq> actor_id ex_bob_actor"
    by (simp add: ex_defs)
  have not_admin: "actor_role ex_bob_actor \<noteq> Some ''admin''"
    by (simp add: ex_defs)
  have valid: "PatchMeetingSchema ex_iso ex_parse ex_patch_text"
    by (simp add: PatchMeetingSchema_def js_truthy_def ex_patch_text_def ex_no_fields_def)
  from patch_forbidden_unchanged [OF found not_owner not_admin,
         of ex_parse ex_cal_up ex_patch_text None None "Some ex_bob_actor" ex_iso]
       session_auth [of ex_bob_actor] valid
  show ?thesis by simp
qed



subsection \<open>The admin bearer token\<close>

lemma bearer_is_admin:
  assumes "t \<noteq> []"
  shows "requireAuth (Some t) (Some (''Bearer '' @ t)) req_user = Inr admin"
  using assms by (simp add: requireAuth_def truthy_def)

lemma patch_same_for_authorized:
  assumes "meeting_findUnique s i = Some m"
    and "createdById m = actor_id act \<or> actor_role act = Some ''admin''"
    and "createdById m = actor_id act' \<or> actor_role act' = Some ''admin''"
  shows "patch parse cal s i b act = patch parse cal s i b act'"
  using assms by (auto simp: patch_def Let_def)

text \<open>
  C10: when \<^verbatim>\<open>ADMIN_TOKEN\<close> is set (to a non-empty string: the guard
  \<^verbatim>\<open>process.env.ADMIN_TOKEN &&\<close> takes the empty string for unset), every request whose
  \<^verbatim>\<open>req.headers.authorization\<close> is \<^verbatim>\<open>Bearer \<close> followed by that string passes
  \<^verbatim>\<open>requireAuth\<close> as the actor with id \<^verbatim>\<open>admin\<close> and role \<^verbatim>\<open>admin\<close>, with or without a
  session. On every existing meeting, whoever created it, such a caller is never answered
  401 or 403: its Delete is the very result the meeting's creator would get, hence 200
  with the meeting gone when the database does not fail; and its Patch with a body that
  passes the schema is the very result the creator would get, hence 200 with the updated
  meeting when the times present in the body parse to valid dates.
\<close>

theorem admin_bearer_passes:
  assumes tok: "ADMIN_TOKEN = Some t" and nonempty: "t \<noteq> []"
    and hdr: "auth = Some (''Bearer '' @ t)"
  shows "requireAuth ADMIN_TOKEN auth req_user = Inr admin
       \<and> actor_id admin = ''admin'' \<and> actor_role admin = Some ''admin''
       \<and> (meeting_findUnique s i = Some m \<longrightarrow>
            (\<forall>own. actor_id own = createdById m \<longrightarrow>
               r_delete ADMIN_TOKEN cal fault s auth req_user i = delete cal fault s i own)
            \<and> r_outcome (r_delete ADMIN_TOKEN cal fault s auth req_user i) \<noteq>
                Respond 401 (Error ''Not authenticated'')
            \<and> r_outcome (r_delete ADMIN_TOKEN cal fault s auth req_user i) \<noteq>
                Respond 403 (Error ''Forbidden'')
            \<and> (set (take 2 fault) \<subseteq> {None} \<longrightarrow>
                 r_outcome (r_delete ADMIN_TOKEN cal fault s auth req_user i) = Respond 200 Ok
                 \<and> meeting_findUnique (r_store (r_delete ADMIN_TOKEN cal fault s auth req_user i)) i = None)
            \<and> (PatchMeetingSchema iso_ok parse b \<longrightarrow>
                 (\<forall>own. actor_id own = createdById m \<longrightarrow>
                    r_patch ADMIN_TOKEN iso_ok parse cal s auth req_user i b = patch parse cal s i b own)
                 \<and> r_outcome (r_patch ADMIN_TOKEN iso_ok parse cal s auth req_user i b) \<noteq>
                     Respond 401 (Error ''Not authenticated'')
                 \<and> r_outcome (r_patch ADMIN_TOKEN iso_ok parse cal s auth req_user i b) \<noteq>
                     Respond 403 (Error ''Forbidden'')
                 \<and> ((\<forall>t. (p_startTime b = Str t \<or> p_endTime b = Str t) \<and> t \<noteq> [] \<longrightarrow> parse t \<noteq> None) \<longrightarrow>
                      (\<exists>m'. meeting_findUnique
                               (r_store (r_patch ADMIN_TOKEN iso_ok parse cal s auth req_user i b)) i = Some m'
                            \<and> r_outcome (r_patch ADMIN_TOKEN iso_ok parse cal s auth req_user i b) =
                                Respond 200 (MeetingJson (Some (include_full
                                  (r_store (r_patch ADMIN_TOKEN iso_ok parse cal s auth req_user i b)) m')))))))"
proof -
  let ?d = "r_delete ADMIN_TOKEN cal fault s auth req_user i"
  let ?p = "r_patch ADMIN_TOKEN iso_ok parse cal s auth req_user i b"
  have auth: "requireAuth ADMIN_TOKEN auth req_user = Inr admin"
    unfolding tok hdr by (rule bearer_is_admin [OF nonempty])
  have role: "createdById m = actor_id admin \<or> actor_role admin = Some ''admin''" for m
    by (simp add: admin_def)
  have route: "?d = delete cal fault s i admin"
    using auth by (simp add: r_delete_def)
  have del_same: "?d = delete cal fault s i own"
    if found: "meeting_findUnique s i = Some m" and own: "actor_id own = createdById m" for own
    unfolding route using own by (intro delete_same_for_authorized [OF found role]) simp
  have del_cases: "?d = (case transaction fault s [attendee_deleteMany (\<lambda>a. meetingId a = i), meeting_delete i] of
              Inl e \<Rightarrow>
                throw s (fst (deleteGoogleEventWithFallback cal (user_findUnique s (createdById m))
                                (googleEventId m) (title m) (startTime m) (endTime m))) e
            | Inr s' \<Rightarrow>
                reply s' (fst (deleteGoogleEventWithFallback cal (user_findUnique s (createdById m))
                                (googleEventId m) (title m) (startTime m) (endTime m))
                          @ [Db ''$transaction'']) 200 Ok)"
    if found: "meeting_findUnique s i = Some m"
    unfolding route by (rule delete_authorized [OF found role])
  have del_pass: "r_outcome ?d \<noteq> Respond 401 (Error ''Not authenticated'')
                  \<and> r_outcome ?d \<noteq> Respond 403 (Error ''Forbidden'')"
    if found: "meeting_findUnique s i = Some m"
    unfolding del_cases [OF found] by (simp add: reply_def throw_def split: sum.split)
  have del_done: "r_outcome ?d = Respond 200 Ok \<and> meeting_findUnique (r_store ?d) i = None"
    if found: "meeting_findUnique s i = Some m" and ok: "set (take 2 fault) \<subseteq> {None}"
    unfolding del_cases [OF found] delete_transaction [OF found ok]
    by (simp add: reply_def meeting_findUnique_def find_None_iff)
  have pat_route: "?p = patch parse cal s i b admin" if valid: "PatchMeetingSchema iso_ok parse b"
    by (rule r_patch_passes [OF auth valid])
  have pat_same: "?p = patch parse cal s i b own"
    if found: "meeting_findUnique s i = Some m" and valid: "PatchMeetingSchema iso_ok parse b"
      and own: "actor_id own = createdById m" for own
    unfolding pat_route [OF valid] using own by (intro patch_same_for_authorized [OF found role]) simp
  have pat_pass: "r_outcome ?p \<noteq> Respond 401 (Error ''Not authenticated'')
                  \<and> r_outcome ?p \<noteq> Respond 403 (Error ''Forbidden'')"
    if found: "meeting_findUnique s i = Some m" and valid: "PatchMeetingSchema iso_ok parse b"
  proof (cases "patch_data parse b")
    case (Inl e)
    then show ?thesis
      by (simp add: pat_route [OF valid] patch_rejected_data [OF found role] throw_def)
  next
    case (Inr f)
    then show ?thesis
      by (simp add: pat_route [OF valid] patch_authorized [OF found role] reply_def)
  qed
  have pat: "\<exists>m'. meeting_findUnique (r_store ?p) i = Some m'
                 \<and> r_outcome ?p = Respond 200 (MeetingJson (Some (include_full (r_store ?p) m')))"
    if found: "meeting_findUnique s i = Some m"
      and valid: "PatchMeetingSchema iso_ok parse b"
      and dates: "\<forall>t. (p_startTime b = Str t \<or> p_endTime b = Str t) \<and> t \<noteq> [] \<longrightarrow> parse t \<noteq> None"
  proof -
    obtain f where data: "patch_data parse b = Inr f"
      using patch_data_valid [OF valid dates] by blast
    have keep: "m_id (f m) = m_id m"
      using patch_data_keeps_id [OF data] by blast
    from found have "m_id m = i"
      by (auto simp: meeting_findUnique_def find_Some_iff)
    with keep have "m_id (f m) = i" by simp
    with found
    have stored: "meeting_findUnique
                    (s\<lparr>meetings := map (\<lambda>x. if m_id x = i then f x else x) (meetings s)\<rparr>) i = Some (f m)"
      by (simp add: meeting_findUnique_def find_after_update)
    show ?thesis
      using stored
      by (simp add: pat_route [OF valid] patch_authorized [OF found role data] reply_def)
  qed
  have ident: "actor_id admin = ''admin'' \<and> actor_role admin = Some ''admin''"
    by (simp add: admin_def)
  from auth ident del_same del_pass del_done pat_same pat_pass pat show ?thesis
    by blast
qed

theorem admin_bearer_passes_witness:
  "requireAuth (Some ''s3cret'') (Some ''Bearer s3cret'') (Some ex_bob_actor) = Inr admin
   \<and> createdById ex_math \<noteq> actor_id admin
   \<and> r_outcome (r_delete (Some ''s3cret'') ex_cal_up [] ex_store (Some ''Bearer s3cret'') None ''m1'') =
       Respond 200 Ok
   \<and> meeting_findUnique
       (r_store (r_delete (Some ''s3cret'') ex_cal_up [] ex_store (Some ''Bearer s3cret'') None ''m1'')) ''m1'' = None
   \<and> r_delete (Some ''s3cret'') ex_cal_up [] ex_store (Some ''Bearer s3cret'') None ''m1'' =
       delete ex_cal_up [] ex_store ''m1'' ex_alice_actor
   \<and> r_patch (Some ''s3cret'') ex_zod ex_parse ex_cal_up ex_store (Some ''Bearer s3cret'') None
       ''m1'' ex_patch_text = patch ex_parse ex_cal_up ex_store ''m1'' ex_patch_text ex_alice_actor
   \<and> meeting_findUnique
       (r_store (r_patch (Some ''s3cret'') ex_zod ex_parse ex_cal_up ex_store (Some ''Bearer s3cret'') None
                   ''m1'' ex_patch_text)) ''m1'' =
       Some (ex_math\<lparr> title := ''Algebra'', description := Some [], subject := None \<rparr>)
   \<and> r_outcome (r_patch (Some ''s3cret'') ex_zod ex_parse ex_cal_up ex_store (Some ''Bearer s3cret'') None
                   ''m1'' ex_patch_text) =
       Respond 200 (MeetingJson (Some (include_full ex_store
         (ex_math\<lparr> title := ''Algebra'', description := Some [], subject := None \<rparr>))))"
proof -
  have tok: "Some ''s3cret'' = Some ''s3cret''" and nonempty: "''s3cret'' \<noteq> []"
    and hdr: "Some ''Bearer s3cret'' = Some (''Bearer '' @ ''s3cret'')"
    by simp_all
  have found: "meeting_findUnique ex_store ''m1'' = Some ex_math"
    by (simp add: meeting_findUnique_def ex_defs)
  have owner: "actor_id ex_alice_actor = createdById ex_math"
    by (simp add: ex_defs)
  have clean: "set (take 2 ([] :: db_error option list)) \<subseteq> {None}"
    by simp
  have valid: "PatchMeetingSchema ex_zod ex_parse ex_patch_text"
    by (simp add: PatchMeetingSchema_def js_truthy_def ex_patch_text_def ex_no_fields_def)
  have dates: "\<forall>t. (p_startTime ex_patch_text = Str t \<or> p_endTime ex_patch_text = Str t) \<and> t \<noteq> []
                 \<longrightarrow> ex_parse t \<noteq> None"
    by (simp add: ex_patch_text_def ex_no_fields_def)
  from admin_bearer_passes [OF tok nonempty hdr, where req_user = "Some ex_bob_actor"]
  have one: "requireAuth (Some ''s3cret'') (Some ''Bearer s3cret'') (Some ex_bob_actor) = Inr admin"
    by blast
  note inst = admin_bearer_passes
      [OF tok nonempty hdr, where req_user = None and s = ex_store and i = "''m1''" and m = ex_math
         and cal = ex_cal_up and fault = "[]" and iso_ok = ex_zod and parse = ex_parse and b = ex_patch_text]
  from inst found owner clean
  have two: "r_outcome (r_delete (Some ''s3cret'') ex_cal_up [] ex_store (Some ''Bearer s3cret'') None ''m1'') =
       Respond 200 Ok
   \<and> meeting_findUnique
       (r_store (r_delete (Some ''s3cret'') ex_cal_up [] ex_store (Some ''Bearer s3cret'') None ''m1'')) ''m1'' = None
   \<and> r_delete (Some ''s3cret'') ex_cal_up [] ex_store (Some ''Bearer s3cret'') None ''m1'' =
       delete ex_cal_up [] ex_store ''m1'' ex_alice_actor"
    by blast
  from inst found owner valid
  have three: "r_patch (Some ''s3cret'') ex_zod ex_parse ex_cal_up ex_store (Some ''Bearer s3cret'') None
       ''m1'' ex_patch_text = patch ex_parse ex_cal_up ex_store ''m1'' ex_patch_text ex_alice_actor"
    by blast
  from inst found valid dates
  obtain m' where stored: "meeting_findUnique
       (r_store (r_patch (Some ''s3cret'') ex_zod ex_parse ex_cal_up ex_store (Some ''Bearer s3cret'') None
                   ''m1'' ex_patch_text)) ''m1'' = Some m'"
    and answer: "r_outcome (r_patch (Some ''s3cret'') ex_zod ex_parse ex_cal_up ex_store
                   (Some ''Bearer s3cret'') None ''m1'' ex_patch_text) =
       Respond 200 (MeetingJson (Some (include_full
         (r_store (r_patch (Some ''s3cret'') ex_zod ex_parse ex_cal_up ex_store (Some ''Bearer s3cret'') None
                   ''m1'' ex_patch_text)) m')))"
    by blast
  have written: "meeting_findUnique
       (r_store (r_patch (Some ''s3cret'') ex_zod ex_parse ex_cal_up ex_store (Some ''Bearer s3cret'') None
                   ''m1'' ex_patch_text)) ''m1'' =
       Some (ex_math\<lparr> title := ''Algebra'', description := Some [], subject := None \<rparr>)"
    by (simp add: r_patch_def requireAuth_def truthy_def validate_def PatchMeetingSchema_def
          js_truthy_def patch_def patch_data_def meeting_findUnique_def meeting_update_def
          set_title_def set_col_def set_time_def admin_def reply_def Let_def
          ex_patch_text_def ex_no_fields_def ex_defs)
  have body: "include_full
         (r_store (r_patch (Some ''s3cret'') ex_zod ex_parse ex_cal_up ex_store (Some ''Bearer s3cret'') None
                   ''m1'' ex_patch_text)) x = include_full ex_store x" for x
    by (simp add: r_patch_def requireAuth_def truthy_def validate_def PatchMeetingSchema_def
          js_truthy_def patch_def patch_data_def meeting_findUnique_def meeting_update_def
          admin_def reply_def Let_def include_full_def user_findUnique_def
          ex_patch_text_def ex_no_fields_def ex_defs)
  have four: "createdById ex_math \<noteq> actor_id admin"
    by (simp add: admin_def ex_math_def)
  from stored written have "m' = ex_math\<lparr> title := ''Algebra'', description := Some [], subject := None \<rparr>"
    by simp
  with answer body
  have five: "r_outcome (r_patch (Some ''s3cret'') ex_zod ex_parse ex_cal_up ex_store (Some ''Bearer s3cret'') None
                   ''m1'' ex_patch_text) =
       Respond 200 (MeetingJson (Some (include_full ex_store
         (ex_math\<lparr> title := ''Algebra'', description := Some [], subject := None \<rparr>))))"
    by simp
  from one two three four five written show ?thesis
    by (elim conjE) (intro conjI; assumption)
qed

text \<open>
  C6: with the validation boundary in place, a Patch by the owner whose body holds
  only a \<^verbatim>\<open>startTime\<close>, later than the stored \<^verbatim>\<open>endTime\<close>, passes
  \<^verbatim>\<open>PatchMeetingSchema\<close> (its refinement compares the two times only when both are in
  the body) and is written: the persisted meeting then starts an hour after it ends.
\<close>

theorem patch_start_after_stored_end:
  "PatchMeetingSchema ex_iso ex_parse ex_patch_start
   \<and> meeting_findUnique ex_store ''m1'' = Some ex_math
   \<and> startTime ex_math < endTime ex_math
   \<and> r_outcome (r_patch None ex_iso ex_parse ex_cal_up ex_store None (Some ex_alice_actor) ''m1'' ex_patch_start) =
       Respond 200 (MeetingJson (Some (include_full ex_store
         (ex_math\<lparr> startTime := 1758740400000 \<rparr>))))
   \<and> meeting_findUnique
       (r_store (r_patch None ex_iso ex_parse ex_cal_up ex_store None (Some ex_alice_actor) ''m1'' ex_patch_start))
       ''m1'' = Some (ex_math\<lparr> startTime := 1758740400000 \<rparr>)
   \<and> endTime (ex_math\<lparr> startTime := 1758740400000 \<rparr>) = 1758736800000"
  by (auto simp: r_patch_def requireAuth_def truthy_def validate_def PatchMeetingSchema_def
        js_truthy_def patch_def patch_data_def meeting_findUnique_def meeting_update_def
        set_title_def set_col_def set_time_def new_Date_def include_full_def user_findUnique_def
        reply_def Let_def ex_patch_start_def ex_no_fields_def ex_defs)


subsection \<open>Create\<close>

lemma find_fresh:
  "i \<notin> set (map m_id ms) \<Longrightarrow> m_id row = i \<Longrightarrow> find (\<lambda>x. m_id x = i) (ms @ [row]) = Some row"
  by (induction ms) auto

lemma map_fresh:
  "i \<notin> set (map m_id ms) \<Longrightarrow> map (\<lambda>x. if m_id x = i then f x else x) ms = ms"
  by (induction ms) auto

lemma create_data_valid:
  assumes "CreateMeetingSchema iso_ok parse b"
  obtains t st en where "p_title b = Str t" "t \<noteq> []"
    and "new_Date parse (p_startTime b) = Some st" "new_Date parse (p_endTime b) = Some en" "st < en"
    and "create_data parse mid b act =
           Inr \<lparr> m_id = mid, title = t, description = col (p_description b),
                 subject = col (p_subject b), level = col (p_level b),
                 specialization = col (p_specialization b),
                 startTime = st, endTime = en,
                 location = col (p_location b), onlineUrl = col (p_onlineUrl b),
                 createdById = actor_id act, googleEventId = None \<rparr>"
proof -
  from assms obtain t where t: "p_title b = Str t" "t \<noteq> []"
    by (cases "p_title b") (auto simp: CreateMeetingSchema_def Suc_le_eq)
  from assms obtain st en where d: "new_Date parse (p_startTime b) = Some st"
      "new_Date parse (p_endTime b) = Some en" "st < en"
    by (auto simp: CreateMeetingSchema_def time_gt_def split: option.splits)
  from t d have "create_data parse mid b act =
           Inr \<lparr> m_id = mid, title = t, description = col (p_description b),
                 subject = col (p_subject b), level = col (p_level b),
                 specialization = col (p_specialization b),
                 startTime = st, endTime = en,
                 location = col (p_location b), onlineUrl = col (p_onlineUrl b),
                 createdById = actor_id act, googleEventId = None \<rparr>"
    by (simp add: create_data_def)
  with t d show thesis by (rule that)
qed

text \<open>The event id Create ends up storing: the adapter's, or none when it threw.\<close>

lemma create_calendar_store:
  assumes fresh: "mid \<notin> set (map m_id ms)" and row: "m_id row = mid" "googleEventId row = None"
  shows "snd (create_calendar cal (S\<lparr>meetings := ms @ [row]\<rparr>) mid act) =
           S\<lparr>meetings := ms @ [row\<lparr>googleEventId :=
                (case snd (createCalendarEventForMeeting cal (actor_refreshToken act)) of
                   Throws e \<Rightarrow> None | Returns g \<Rightarrow> g)\<rparr>]\<rparr>"
proof (cases "createCalendarEventForMeeting cal (actor_refreshToken act)")
  case (Pair tr res)
  have same: "row\<lparr>googleEventId := None\<rparr> = row"
    using row by simp
  show ?thesis
  proof (cases res)
    case (Throws e)
    with Pair same show ?thesis by (simp add: create_calendar_def)
  next
    case (Returns g)
    show ?thesis
    proof (cases "truthy g")
      case True
      with Pair Returns fresh row show ?thesis
        by (simp add: create_calendar_def meeting_update_def meeting_findUnique_def
              find_fresh map_fresh)
    next
      case False
      from Pair Returns have "g = None \<or> truthy g"
        by (auto simp: createCalendarEventForMeeting_def split: if_splits api.splits)
      with False have "g = None" by simp
      with Pair Returns same show ?thesis
        by (simp add: create_calendar_def truthy_def)
    qed
  qed
qed

lemma create_data_row:
  "create_data parse mid b act = Inr row \<Longrightarrow>
   m_id row = mid \<and> createdById row = actor_id act \<and> googleEventId row = None"
  by (auto simp: create_data_def split: jv.splits option.splits)

lemma create_valid:
  assumes data: "create_data parse mid b act = Inr row"
    and wf: "wf_store s"
    and usr: "actor_id act \<in> set (map u_id (users s))"
    and fresh_m: "mid \<notin> set (map m_id (meetings s))"
    and fresh_a: "aid \<notin> set (map a_id (attendees s))"
  shows "\<exists>tr. create parse cal s mid aid b act =
       reply (s\<lparr>meetings := meetings s @ [row\<lparr>googleEventId :=
                    (case snd (createCalendarEventForMeeting cal (actor_refreshToken act)) of
                       Throws e \<Rightarrow> None | Returns g \<Rightarrow> g)\<rparr>],
                attendees := attendees s @
                    [\<lparr> a_id = aid, meetingId = mid, userId = actor_id act, status = ''going'' \<rparr>]\<rparr>)
         ([Db ''meeting.create'', Db ''meetingAttendee.create''] @ tr) 201
         (MeetingJson (Some (include_full
            (s\<lparr>meetings := meetings s @ [row\<lparr>googleEventId :=
                    (case snd (createCalendarEventForMeeting cal (actor_refreshToken act)) of
                       Throws e \<Rightarrow> None | Returns g \<Rightarrow> g)\<rparr>],
                attendees := attendees s @
                    [\<lparr> a_id = aid, meetingId = mid, userId = actor_id act, status = ''going'' \<rparr>]\<rparr>)
            (row\<lparr>googleEventId :=
                    (case snd (createCalendarEventForMeeting cal (actor_refreshToken act)) of
                       Throws e \<Rightarrow> None | Returns g \<Rightarrow> g)\<rparr>))))"
proof -
  let ?G = "case snd (createCalendarEventForMeeting cal (actor_refreshToken act)) of
              Throws e \<Rightarrow> None | Returns g \<Rightarrow> g"
  let ?going = "\<lparr> a_id = aid, meetingId = mid, userId = actor_id act, status = ''going'' \<rparr>"
  from data have row: "m_id row = mid" "createdById row = actor_id act" "googleEventId row = None"
    using create_data_row by blast+
  let ?s1 = "s\<lparr>meetings := meetings s @ [row]\<rparr>"
  have mc: "meeting_create s row = Inr (?s1, row)"
    using fresh_m usr row by (simp add: meeting_create_def)
  from wf have "\<forall>a \<in> set (attendees s). meetingId a \<in> set (map m_id (meetings s))"
    by (simp add: wf_store_def)
  with fresh_m have none: "\<not> (\<exists>a \<in> set (attendees s). meetingId a = mid \<and> userId a = actor_id act)"
    by auto
  let ?s2 = "?s1\<lparr>attendees := attendees s @ [?going]\<rparr>"
  have ac: "attendee_create ?s1 aid mid (actor_id act) ''going'' = Inr (?s2, ?going)"
    using fresh_a none usr row by (auto simp: attendee_create_def Let_def)
  have s2: "?s2 = (s\<lparr>attendees := attendees s @ [?going]\<rparr>)\<lparr>meetings := meetings s @ [row]\<rparr>"
    by simp
  obtain tr s3 where cc: "create_calendar cal ?s2 mid act = (tr, s3)"
    by (cases "create_calendar cal ?s2 mid act")
  have "s3 = snd (create_calendar cal ?s2 mid act)" by (simp add: cc)
  also have "\<dots> = (s\<lparr>attendees := attendees s @ [?going]\<rparr>)\<lparr>meetings := meetings s @ [row\<lparr>googleEventId := ?G\<rparr>]\<rparr>"
    unfolding s2 by (rule create_calendar_store [OF fresh_m row(1) row(3)])
  finally have s3: "s3 = s\<lparr>meetings := meetings s @ [row\<lparr>googleEventId := ?G\<rparr>],
                             attendees := attendees s @ [?going]\<rparr>"
    by simp
  have stored: "meeting_findUnique s3 mid = Some (row\<lparr>googleEventId := ?G\<rparr>)"
    using fresh_m row by (simp add: s3 meeting_findUnique_def find_fresh)
  have "create parse cal s mid aid b act =
          reply s3 ([Db ''meeting.create'', Db ''meetingAttendee.create''] @ tr) 201
            (MeetingJson (Some (include_full s3 (row\<lparr>googleEventId := ?G\<rparr>))))"
    using row by (simp add: create_def data mc ac cc stored)
  then show ?thesis
    unfolding s3 by blast
qed

text \<open>
  C2, amended: for every authenticated actor whose id is a row of \<^verbatim>\<open>User\<close> and every
  body that passes the Create schema, Create persists the meeting and enrolls the
  actor as an attendee with status \<^verbatim>\<open>going\<close>, the two writes coming before any calendar
  call; whatever the calendar call does (the statement holds for every \<open>cal\<close>: it may
  throw, or return no id), the answer is 201 with the full created meeting, whose
  attendees are exactly that one record. The stored event id is the adapter's, or none.
  The store satisfies the schema's constraints and the two generated keys are fresh.
\<close>

theorem create_enrolls_creator:
  assumes auth: "requireAuth ADMIN_TOKEN auth req_user = Inr act"
    and valid: "CreateMeetingSchema iso_ok parse b"
    and wf: "wf_store s"
    and usr: "actor_id act \<in> set (map u_id (users s))"
    and fresh_m: "mid \<notin> set (map m_id (meetings s))"
    and fresh_a: "aid \<notin> set (map a_id (attendees s))"
  shows "let r = r_post ADMIN_TOKEN iso_ok parse cal s auth req_user mid aid b;
             going = \<lparr> a_id = aid, meetingId = mid, userId = actor_id act, status = ''going'' \<rparr>
         in case meeting_findUnique (r_store r) mid of
              None \<Rightarrow> False
            | Some m' \<Rightarrow>
                r_outcome r = Respond 201 (MeetingJson (Some (include_full (r_store r) m')))
                \<and> fm_attendees (include_full (r_store r) m') = {going}
                \<and> attendees (r_store r) = attendees s @ [going]
                \<and> meetings (r_store r) = meetings s @ [m']
                \<and> users (r_store r) = users s
                \<and> m_id m' = mid \<and> createdById m' = actor_id act
                \<and> Str (title m') = p_title b
                \<and> description m' = col (p_description b) \<and> subject m' = col (p_subject b)
                \<and> level m' = col (p_level b) \<and> specialization m' = col (p_specialization b)
                \<and> location m' = col (p_location b) \<and> onlineUrl m' = col (p_onlineUrl b)
                \<and> Some (startTime m') = new_Date parse (p_startTime b)
                \<and> Some (endTime m') = new_Date parse (p_endTime b)
                \<and> startTime m' < endTime m'
                \<and> googleEventId m' =
                    (case snd (createCalendarEventForMeeting cal (actor_refreshToken act)) of
                       Throws e \<Rightarrow> None | Returns g \<Rightarrow> g)
                \<and> take 2 (r_trace r) = [Db ''meeting.create'', Db ''meetingAttendee.create'']"
proof -
  let ?G = "case snd (createCalendarEventForMeeting cal (actor_refreshToken act)) of
              Throws e \<Rightarrow> None | Returns g \<Rightarrow> g"
  let ?going = "\<lparr> a_id = aid, meetingId = mid, userId = actor_id act, status = ''going'' \<rparr>"
  have route: "r_post ADMIN_TOKEN iso_ok parse cal s auth req_user mid aid b =
                 create parse cal s mid aid b act"
    using auth valid by (simp add: r_post_def validate_def)
  from valid obtain t st en where fields: "p_title b = Str t"
      "new_Date parse (p_startTime b) = Some st" "new_Date parse (p_endTime b) = Some en" "st < en"
    and data: "create_data parse mid b act =
           Inr \<lparr> m_id = mid, title = t, description = col (p_description b),
                 subject = col (p_subject b), level = col (p_level b),
                 specialization = col (p_specialization b),
                 startTime = st, endTime = en,
                 location = col (p_location b), onlineUrl = col (p_onlineUrl b),
                 createdById = actor_id act, googleEventId = None \<rparr>"
    by (rule create_data_valid [where mid = mid and act = act])
  let ?row = "\<lparr> m_id = mid, title = t, description = col (p_description b),
                 subject = col (p_subject b), level = col (p_level b),
                 specialization = col (p_specialization b),
                 startTime = st, endTime = en,
                 location = col (p_location b), onlineUrl = col (p_onlineUrl b),
                 createdById = actor_id act, googleEventId = None \<rparr>"
  let ?s' = "s\<lparr>meetings := meetings s @ [?row\<lparr>googleEventId := ?G\<rparr>],
                attendees := attendees s @ [?going]\<rparr>"
  obtain tr where r: "create parse cal s mid aid b act =
       reply ?s' ([Db ''meeting.create'', Db ''meetingAttendee.create''] @ tr) 201
         (MeetingJson (Some (include_full ?s' (?row\<lparr>googleEventId := ?G\<rparr>))))"
    using create_valid [OF data wf usr fresh_m fresh_a] by blast
  have stored: "meeting_findUnique ?s' mid = Some (?row\<lparr>googleEventId := ?G\<rparr>)"
    using fresh_m by (simp add: meeting_findUnique_def find_fresh)
  from wf have "\<forall>a \<in> set (attendees s). meetingId a \<in> set (map m_id (meetings s))"
    by (simp add: wf_store_def)
  with fresh_m have "filter (\<lambda>a. meetingId a = mid) (attendees s) = []"
    by (auto simp: filter_empty_conv)
  then have only: "fm_attendees (include_full ?s' (?row\<lparr>googleEventId := ?G\<rparr>)) = {?going}"
    by (simp add: include_full_def)
  show ?thesis
    unfolding Let_def route r
    using stored only fields
    by (simp add: reply_def)
qed


theorem create_enrolls_creator_witness:
  "let r = r_post None ex_iso ex_parse ex_cal_down ex_store None (Some ex_alice_actor) ''m3'' ''a4'' ex_create
   in r_outcome r = Respond 201 (MeetingJson (Some
        \<lparr> fm_meeting = ex_math\<lparr> m_id := ''m3'', googleEventId := None \<rparr>,
          fm_attendees = {\<lparr> a_id = ''a4'', meetingId = ''m3'', userId = ''u1'', status = ''going'' \<rparr>},
          fm_createdBy = Some ex_alice \<rparr>))
      \<and> attendees (r_store r) = attendees ex_store @
           [\<lparr> a_id = ''a4'', meetingId = ''m3'', userId = ''u1'', status = ''going'' \<rparr>]
      \<and> r_trace r = [Db ''meeting.create'', Db ''meetingAttendee.create'', EventsInsert,
                      Warn ''[calendar] insert failed:'']
      \<and> events_insert ex_cal_down = Throws (Code 500)"
proof -
  have valid: "CreateMeetingSchema ex_iso ex_parse ex_create"
    by (simp add: CreateMeetingSchema_def time_gt_def new_Date_def ex_create_def ex_iso_def ex_parse_def)
  have usr: "actor_id ex_alice_actor \<in> set (map u_id (users ex_store))"
    by (simp add: ex_defs)
  have fresh_m: "''m3'' \<notin> set (map m_id (meetings ex_store))"
    by (simp add: ex_defs)
  have fresh_a: "''a4'' \<notin> set (map a_id (attendees ex_store))"
    by (simp add: ex_defs)
  let ?r = "r_post None ex_iso ex_parse ex_cal_down ex_store None (Some ex_alice_actor) ''m3'' ''a4'' ex_create"
  from create_enrolls_creator [OF session_auth valid wf_ex_store usr fresh_m fresh_a, of ex_cal_down]
  obtain m' where stored: "meeting_findUnique (r_store ?r) ''m3'' = Some m'"
    and out: "r_outcome ?r = Respond 201 (MeetingJson (Some (include_full (r_store ?r) m')))"
    and att: "fm_attendees (include_full (r_store ?r) m') =
                {\<lparr> a_id = ''a4'', meetingId = ''m3'', userId = actor_id ex_alice_actor, status = ''going'' \<rparr>}"
      "attendees (r_store ?r) = attendees ex_store @
                [\<lparr> a_id = ''a4'', meetingId = ''m3'', userId = actor_id ex_alice_actor, status = ''going'' \<rparr>]"
    and usrs: "users (r_store ?r) = users ex_store"
    and fields: "m_id m' = ''m3''" "createdById m' = actor_id ex_alice_actor"
      "Str (title m') = p_title ex_create"
      "description m' = col (p_description ex_create)" "subject m' = col (p_subject ex_create)"
      "level m' = col (p_level ex_create)" "specialization m' = col (p_specialization ex_create)"
      "location m' = col (p_location ex_create)" "onlineUrl m' = col (p_onlineUrl ex_create)"
      "Some (startTime m') = new_Date ex_parse (p_startTime ex_create)"
      "Some (endTime m') = new_Date ex_parse (p_endTime ex_create)"
      "googleEventId m' =
         (case snd (createCalendarEventForMeeting ex_cal_down (actor_refreshToken ex_alice_actor)) of
            Throws e \<Rightarrow> None | Returns g \<Rightarrow> g)"
    by (auto simp: Let_def split: option.splits)
  from fields have m': "m' = ex_math\<lparr> m_id := ''m3'', googleEventId := None \<rparr>"
    by (cases m')
       (simp add: ex_math_def ex_create_def col_def new_Date_def ex_parse_def
          createCalendarEventForMeeting_def truthy_def ex_cal_down_def ex_alice_actor_def)
  have creator: "fm_createdBy (include_full (r_store ?r) m') = Some ex_alice"
    by (simp add: include_full_def user_findUnique_def usrs m') (simp add: ex_defs)
  have full: "include_full (r_store ?r) m' =
        \<lparr> fm_meeting = ex_math\<lparr> m_id := ''m3'', googleEventId := None \<rparr>,
          fm_attendees = {\<lparr> a_id = ''a4'', meetingId = ''m3'', userId = ''u1'', status = ''going'' \<rparr>},
          fm_createdBy = Some ex_alice \<rparr>"
    using att(1) creator by (cases "include_full (r_store ?r) m'") (simp add: include_full_def m' ex_alice_actor_def)
  have trace: "r_trace ?r = [Db ''meeting.create'', Db ''meetingAttendee.create'', EventsInsert,
                      Warn ''[calendar] insert failed:'']"
    by (simp add: r_post_def requireAuth_def truthy_def validate_def CreateMeetingSchema_def
          time_gt_def create_def create_data_def new_Date_def col_def meeting_create_def attendee_create_def create_calendar_def
          createCalendarEventForMeeting_def reply_def Let_def ex_create_def ex_defs)
  from out full att(2) trace show ?thesis
    by (simp add: Let_def ex_alice_actor_def ex_cal_down_def)
qed

text \<open>
  The actor of the \<^verbatim>\<open>ADMIN_TOKEN\<close> bearer is authenticated, its id \<^verbatim>\<open>admin\<close> is no row
  of \<^verbatim>\<open>User\<close>: \<^verbatim>\<open>Meeting_createdById_fkey\<close> rejects the insert of the meeting with
  \<^verbatim>\<open>P2003\<close>, the exception leaves the handler, and nothing is persisted.
\<close>

theorem create_admin_bearer:
  "requireAuth (Some ''s3cret'') (Some ''Bearer s3cret'') None = Inr admin
   \<and> CreateMeetingSchema ex_iso ex_parse ex_create
   \<and> r_outcome (r_post (Some ''s3cret'') ex_iso ex_parse ex_cal_up ex_store (Some ''Bearer s3cret'') None
                  ''m3'' ''a4'' ex_create) = Unhandled P2003
   \<and> r_store (r_post (Some ''s3cret'') ex_iso ex_parse ex_cal_up ex_store (Some ''Bearer s3cret'') None
                  ''m3'' ''a4'' ex_create) = ex_store"
  by (simp add: r_post_def requireAuth_def truthy_def validate_def CreateMeetingSchema_def time_gt_def
        create_def create_data_def new_Date_def col_def meeting_create_def admin_def throw_def
        ex_create_def ex_defs)


subsection \<open>Recommendations\<close>

lemma popular_meetings:
  "map rc_meeting (popular reason ms) = take 5 (sort_key (\<lambda>m. - int (attendeesCount m)) ms)"
  by (simp add: popular_def comp_def)

lemma popular_tags:
  "r \<in> set (popular reason ms) \<Longrightarrow> rc_score r = Jnum 50 \<and> rc_reason r = Jstr reason"
  by (auto simp: popular_def)

lemma top_of_sorted:
  assumes sorted: "sorted (map k xs)"
    and a: "a \<in> set (take n xs)" and b: "b \<in> set xs" "b \<notin> set (take n xs)"
  shows "k a \<le> k b"
proof -
  have "set xs = set (take n xs) \<union> set (drop n xs)"
    by (metis append_take_drop_id set_append)
  with b have b': "b \<in> set (drop n xs)" by blast
  from sorted have "sorted (map k (take n xs) @ map k (drop n xs))"
    by (metis append_take_drop_id map_append)
  then have "\<forall>x \<in> set (map k (take n xs)). \<forall>y \<in> set (map k (drop n xs)). x \<le> y"
    by (simp add: sorted_append)
  with a b' show ?thesis by auto
qed

lemma recommend_fallback:
  assumes key: "truthy GEMINI_API_KEY"
    and profile: "getUserProfile s uid = Some p"
    and history: "0 < totalMeetingsJoined p"
    and candidates: "getAvailableMeetings s now uid \<noteq> []"
    and failure:
      "generateContent p (getAvailableMeetings s now uid) = None \<or>
       (\<exists>response text.
          generateContent p (getAvailableMeetings s now uid) = Some response \<and>
          jsonMatch response = Some text \<and>
          (JSON_parse text = None \<or> (\<exists>rk. JSON_parse text = Some rk \<and> RNull \<in> set rk)))"
  shows "getRecommendations GEMINI_API_KEY generateContent JSON_parse s now uid =
           popular ''Popular session'' (getAvailableMeetings s now uid)"
  using failure
proof (elim disjE exE conjE)
  assume "generateContent p (getAvailableMeetings s now uid) = None"
  with key profile history candidates show ?thesis
    by (simp add: getRecommendations_def Let_def)
next
  fix response j
  assume "generateContent p (getAvailableMeetings s now uid) = Some response"
    "jsonMatch response = Some j" "JSON_parse j = None"
  with key profile history candidates show ?thesis
    by (simp add: getRecommendations_def Let_def)
next
  fix response j rk
  assume "generateContent p (getAvailableMeetings s now uid) = Some response"
    "jsonMatch response = Some j" "JSON_parse j = Some rk" "RNull \<in> set rk"
  with key profile history candidates show ?thesis
    by (simp add: getRecommendations_def Let_def)
qed

lemma recommend_no_key:
  "\<not> truthy GEMINI_API_KEY \<Longrightarrow>
   getRecommendations GEMINI_API_KEY generateContent JSON_parse s now uid = []"
  by (simp add: getRecommendations_def)

lemma recommend_no_profile:
  "getUserProfile s uid = None \<Longrightarrow>
   getRecommendations GEMINI_API_KEY generateContent JSON_parse s now uid = []"
  by (simp add: getRecommendations_def)

lemma recommend_no_candidates:
  "getAvailableMeetings s now uid = [] \<Longrightarrow>
   getRecommendations GEMINI_API_KEY generateContent JSON_parse s now uid = []"
  by (simp add: getRecommendations_def Let_def split: option.split)

lemma recommend_no_array:
  assumes "getUserProfile s uid = Some p" and "0 < totalMeetingsJoined p"
    and "generateContent p (getAvailableMeetings s now uid) = Some response"
    and "jsonMatch response = None"
  shows "getRecommendations GEMINI_API_KEY generateContent JSON_parse s now uid = []"
  using assms by (simp add: getRecommendations_def Let_def)

lemma not_joined:
  "(m_id m \<notin> set (map meetingId (filter (\<lambda>a. userId a = uid) (attendees s)))) =
   (\<not> (\<exists>a \<in> set (attendees s). meetingId a = m_id m \<and> userId a = uid))"
  by force

lemma available_subset:
  "set (getAvailableMeetings s now uid) \<subseteq>
     (\<lambda>m. \<lparr> rm_id = m_id m, rm_title = title m, rm_description = description m,
             rm_subject = subject m, rm_level = level m,
             rm_specialization = specialization m, rm_startTime = startTime m,
             attendeesCount = length (filter (\<lambda>a. meetingId a = m_id m) (attendees s)) \<rparr>)
       ` set (spec_Eligible s now uid)"
proof -
  have "set (filter (\<lambda>m. m_id m \<notin> set (map meetingId (filter (\<lambda>a. userId a = uid) (attendees s))))
              (take 20 (sort_key startTime (filter (\<lambda>m. now < endTime m) (meetings s)))))
        \<subseteq> set (spec_Eligible s now uid)"
  proof
    fix m
    assume m: "m \<in> set (filter (\<lambda>m. m_id m \<notin> set (map meetingId (filter (\<lambda>a. userId a = uid) (attendees s))))
              (take 20 (sort_key startTime (filter (\<lambda>m. now < endTime m) (meetings s)))))"
    then have "m \<in> set (take 20 (sort_key startTime (filter (\<lambda>m. now < endTime m) (meetings s))))"
      by simp
    then have "m \<in> set (sort_key startTime (filter (\<lambda>m. now < endTime m) (meetings s)))"
      by (rule in_set_takeD)
    then have up: "m \<in> set (meetings s) \<and> now < endTime m"
      by simp
    from m have "m_id m \<notin> set (map meetingId (filter (\<lambda>a. userId a = uid) (attendees s)))"
      by simp
    then have "\<not> (\<exists>a \<in> set (attendees s). meetingId a = m_id m \<and> userId a = uid)"
      using not_joined [of m uid s] by blast
    with up show "m \<in> set (spec_Eligible s now uid)"
      by (simp add: spec_Eligible_def)
  qed
  then show ?thesis
    unfolding getAvailableMeetings_def Let_def set_map by (rule image_mono)
qed

lemma available_eligible:
  assumes few: "length (filter (\<lambda>m. now < endTime m) (meetings s)) \<le> 20"
  shows "getAvailableMeetings s now uid =
     map (\<lambda>m. \<lparr> rm_id = m_id m, rm_title = title m, rm_description = description m,
                 rm_subject = subject m, rm_level = level m,
                 rm_specialization = specialization m, rm_startTime = startTime m,
                 attendeesCount = length (filter (\<lambda>a. meetingId a = m_id m) (attendees s)) \<rparr>)
       (sort_key startTime (spec_Eligible s now uid))"
proof -
  from few have all: "take 20 (sort_key startTime (filter (\<lambda>m. now < endTime m) (meetings s))) =
                      sort_key startTime (filter (\<lambda>m. now < endTime m) (meetings s))"
    by simp
  have "filter (\<lambda>m. m_id m \<notin> set (map meetingId (filter (\<lambda>a. userId a = uid) (attendees s))))
          (sort_key startTime (filter (\<lambda>m. now < endTime m) (meetings s))) =
        sort_key startTime (spec_Eligible s now uid)"
    unfolding filter_sort spec_Eligible_def filter_filter not_joined
    by (simp add: conj_commute)
  then show ?thesis
    unfolding getAvailableMeetings_def Let_def all by simp
qed

text \<open>
  C8, amended: Recommend ranks the candidate list that \<^verbatim>\<open>getAvailableMeetings\<close> builds:
  the twenty earliest upcoming meetings less those the user attends. Every candidate
  is an eligible meeting (upcoming, not attended by the user), and when there are at
  most twenty upcoming meetings the candidates are all the eligible meetings, in order
  of start time. For every user with a non-empty attendance history and a non-empty
  candidate list, with the API key configured, whenever the ranking call throws, or
  the bracketed part of its answer fails to parse as JSON, or the parsed array holds a
  \<^verbatim>\<open>null\<close>, Recommend falls back to the popularity ranking: the first five candidates
  in descending order of attendee count (no candidate left out has more attendees than
  one returned), each with score 50 and the reason \<^verbatim>\<open>Popular session\<close>. It returns
  the empty list, for every store and user, when the API key is not configured, when
  the user has no profile, when the candidate list is empty, and when the answer of
  the ranking call contains no bracketed array.
\<close>

theorem recommend_falls_back_on_throw:
  "let recs = getRecommendations GEMINI_API_KEY generateContent JSON_parse s now uid;
       av = getAvailableMeetings s now uid;
       entry = (\<lambda>m. \<lparr> rm_id = m_id m, rm_title = title m, rm_description = description m,
                        rm_subject = subject m, rm_level = level m,
                        rm_specialization = specialization m, rm_startTime = startTime m,
                        attendeesCount = length (filter (\<lambda>a. meetingId a = m_id m) (attendees s)) \<rparr>)
   in (truthy GEMINI_API_KEY \<and> getUserProfile s uid = Some p \<and> 0 < totalMeetingsJoined p \<and> av \<noteq> [] \<and>
        (generateContent p av = None \<or>
         (\<exists>response text.
            generateContent p av = Some response \<and> jsonMatch response = Some text \<and>
            (JSON_parse text = None \<or> (\<exists>rk. JSON_parse text = Some rk \<and> RNull \<in> set rk)))) \<longrightarrow>
          map rc_meeting recs = take 5 (sort_key (\<lambda>m. - int (attendeesCount m)) av)
          \<and> recs \<noteq> []
          \<and> length recs = min 5 (length av)
          \<and> set (map rc_meeting recs) \<subseteq> set av
          \<and> (\<forall>r \<in> set recs. rc_score r = Jnum 50 \<and> rc_reason r = Jstr ''Popular session'')
          \<and> sorted_wrt (\<lambda>a b. attendeesCount b \<le> attendeesCount a) (map rc_meeting recs)
          \<and> (\<forall>x \<in> set av. x \<notin> set (map rc_meeting recs) \<longrightarrow>
               (\<forall>r \<in> set recs. attendeesCount x \<le> attendeesCount (rc_meeting r))))
    \<and> (\<not> truthy GEMINI_API_KEY \<longrightarrow> recs = [])
    \<and> (getUserProfile s uid = None \<longrightarrow> recs = [])
    \<and> (av = [] \<longrightarrow> recs = [])
    \<and> (getUserProfile s uid = Some p \<and> 0 < totalMeetingsJoined p \<and>
          (\<exists>response. generateContent p av = Some response \<and> jsonMatch response = None) \<longrightarrow> recs = [])
    \<and> set av \<subseteq> entry ` set (spec_Eligible s now uid)
    \<and> (length (filter (\<lambda>m. now < endTime m) (meetings s)) \<le> 20 \<longrightarrow>
          av = map entry (sort_key startTime (spec_Eligible s now uid)))"
proof -
  let ?recs = "getRecommendations GEMINI_API_KEY generateContent JSON_parse s now uid"
  let ?av = "getAvailableMeetings s now uid"
  let ?k = "\<lambda>m. - int (attendeesCount m)"
  let ?sorted = "sort_key ?k ?av"
  have fallback:
    "map rc_meeting ?recs = take 5 ?sorted
     \<and> ?recs \<noteq> []
     \<and> length ?recs = min 5 (length ?av)
     \<and> set (map rc_meeting ?recs) \<subseteq> set ?av
     \<and> (\<forall>r \<in> set ?recs. rc_score r = Jnum 50 \<and> rc_reason r = Jstr ''Popular session'')
     \<and> sorted_wrt (\<lambda>a b. attendeesCount b \<le> attendeesCount a) (map rc_meeting ?recs)
     \<and> (\<forall>x \<in> set ?av. x \<notin> set (map rc_meeting ?recs) \<longrightarrow>
          (\<forall>r \<in> set ?recs. attendeesCount x \<le> attendeesCount (rc_meeting r)))"
    if h: "truthy GEMINI_API_KEY \<and> getUserProfile s uid = Some p \<and> 0 < totalMeetingsJoined p \<and>
           ?av \<noteq> [] \<and>
           (generateContent p ?av = None \<or>
            (\<exists>response text.
               generateContent p ?av = Some response \<and> jsonMatch response = Some text \<and>
               (JSON_parse text = None \<or> (\<exists>rk. JSON_parse text = Some rk \<and> RNull \<in> set rk))))"
  proof -
    from h have key: "truthy GEMINI_API_KEY"
      and profile: "getUserProfile s uid = Some p"
      and history: "0 < totalMeetingsJoined p"
      and candidates: "?av \<noteq> []"
      and failure:
        "generateContent p ?av = None \<or>
         (\<exists>response text.
            generateContent p ?av = Some response \<and> jsonMatch response = Some text \<and>
            (JSON_parse text = None \<or> (\<exists>rk. JSON_parse text = Some rk \<and> RNull \<in> set rk)))"
      by blast+
    have recs: "?recs = popular ''Popular session'' ?av"
      by (rule recommend_fallback
            [where p = p and generateContent = generateContent and JSON_parse = JSON_parse])
         (fact key profile history candidates failure)+
    have ms: "map rc_meeting (popular ''Popular session'' ?av) = take 5 ?sorted"
      by (rule popular_meetings)
    have len: "length (popular ''Popular session'' ?av) = min 5 (length ?av)"
      by (simp add: popular_def min.commute)
    from candidates len have nonempty: "popular ''Popular session'' ?av \<noteq> []"
      by (cases ?av) auto
    have sub: "set (take 5 ?sorted) \<subseteq> set ?av"
      using set_take_subset [of 5 ?sorted] by simp
    have "sorted (map ?k ?sorted)" by (rule sorted_sort_key)
    then have "sorted_wrt (\<lambda>a b. ?k a \<le> ?k b) ?sorted"
      by (simp add: sorted_map)
    then have "sorted_wrt (\<lambda>a b. ?k a \<le> ?k b) (take 5 ?sorted)"
      by (rule sorted_wrt_take)
    then have desc: "sorted_wrt (\<lambda>a b. attendeesCount b \<le> attendeesCount a) (take 5 ?sorted)"
      by simp
    have top: "attendeesCount x \<le> attendeesCount (rc_meeting r)"
      if x: "x \<in> set ?av" "x \<notin> set (take 5 ?sorted)" and r: "r \<in> set (popular ''Popular session'' ?av)"
      for x r
    proof -
      from r have "rc_meeting r \<in> set (map rc_meeting (popular ''Popular session'' ?av))"
        by simp
      then have a: "rc_meeting r \<in> set (take 5 ?sorted)" by (simp only: ms)
      from x have b: "x \<in> set ?sorted" by simp
      have "?k (rc_meeting r) \<le> ?k x"
        by (rule top_of_sorted [OF sorted_sort_key a b x(2)])
      then show ?thesis by simp
    qed
    show ?thesis
      unfolding recs ms
      using nonempty len sub desc top popular_tags [of _ "''Popular session''" ?av]
      by (intro conjI ballI impI) auto
  qed
  have no_key: "?recs = []" if "\<not> truthy GEMINI_API_KEY"
    using that by (rule recommend_no_key)
  have no_profile: "?recs = []" if "getUserProfile s uid = None"
    using that by (rule recommend_no_profile)
  have no_candidates: "?recs = []" if "?av = []"
    using that by (rule recommend_no_candidates)
  have no_array: "?recs = []"
    if "getUserProfile s uid = Some p \<and> 0 < totalMeetingsJoined p \<and>
        (\<exists>response. generateContent p ?av = Some response \<and> jsonMatch response = None)"
    using that by (auto intro: recommend_no_array)
  show ?thesis
    unfolding Let_def
  proof (intro conjI)
    show "set ?av \<subseteq>
       (\<lambda>m. \<lparr> rm_id = m_id m, rm_title = title m, rm_description = description m,
               rm_subject = subject m, rm_level = level m,
               rm_specialization = specialization m, rm_startTime = startTime m,
               attendeesCount = length (filter (\<lambda>a. meetingId a = m_id m) (attendees s)) \<rparr>)
         ` set (spec_Eligible s now uid)"
      by (rule available_subset)
  qed (use fallback no_key no_profile no_candidates no_array available_eligible [of now s uid]
        in \<open>(rule impI, assumption | rule impI, erule (1) notE | blast)+\<close>)
qed

lemma ex_available:
  "getAvailableMeetings ex_store3 1758733200000 ''u1'' = [ex_rec ex_chem 0, ex_rec ex_physics 1]"
  by (simp add: getAvailableMeetings_def ex_store3_def ex_chem_def ex_rec_def ex_defs)

lemma ex_profile:
  "getUserProfile ex_store3 ''u1'' =
     Some \<lparr> pf_userId = ''u1'', pf_name = Some ''Alice'', pf_subjects = [''Math''],
            pf_levels = [''1ere''], pf_specializations = [''ISI''], totalMeetingsJoined = 1 \<rparr>"
  by (simp add: getUserProfile_def user_findUnique_def meeting_findUnique_def js_Set_def truthy_def
        List.map_filter_simps ex_store3_def ex_chem_def ex_defs)

lemma ex_eligible: "spec_Eligible ex_store3 1758733200000 ''u1'' = [ex_physics, ex_chem]"
  by (simp add: spec_Eligible_def ex_store3_def ex_chem_def ex_defs)

theorem recommend_falls_back_on_throw_witness:
  "map rc_meeting
     (getRecommendations (Some ''key'') (\<lambda>p ms. None) (\<lambda>j. None) ex_store3 1758733200000 ''u1'') =
     [ex_rec ex_physics 1, ex_rec ex_chem 0]
   \<and> getRecommendations (Some ''key'') (\<lambda>p ms. None) (\<lambda>j. None) ex_store3 1758733200000 ''u1'' =
     [\<lparr> rc_meeting = ex_rec ex_physics 1, rc_score = Jnum 50, rc_reason = Jstr ''Popular session'' \<rparr>,
      \<lparr> rc_meeting = ex_rec ex_chem 0, rc_score = Jnum 50, rc_reason = Jstr ''Popular session'' \<rparr>]
   \<and> spec_Eligible ex_store3 1758733200000 ''u1'' = [ex_physics, ex_chem]
   \<and> getAvailableMeetings ex_store3 1758733200000 ''u1'' = [ex_rec ex_chem 0, ex_rec ex_physics 1]"
proof -
  have key: "truthy (Some ''key'')"
    by (simp add: truthy_def)
  have history: "0 < totalMeetingsJoined \<lparr> pf_userId = ''u1'', pf_name = Some ''Alice'',
            pf_subjects = [''Math''], pf_levels = [''1ere''], pf_specializations = [''ISI''],
            totalMeetingsJoined = 1 \<rparr>"
    by simp
  have candidates: "getAvailableMeetings ex_store3 1758733200000 ''u1'' \<noteq> []"
    by (simp add: ex_available)
  have few: "length (filter (\<lambda>m. 1758733200000 < endTime m) (meetings ex_store3)) \<le> 20"
    by (simp add: ex_store3_def)
  note inst = recommend_falls_back_on_throw
         [where generateContent = "\<lambda>p ms. None" and JSON_parse = "\<lambda>j. None"
            and GEMINI_API_KEY = "Some ''key''" and s = ex_store3 and now = 1758733200000
            and uid = "''u1''"
            and p = "\<lparr> pf_userId = ''u1'', pf_name = Some ''Alice'',
                        pf_subjects = [''Math''], pf_levels = [''1ere''], pf_specializations = [''ISI''],
                        totalMeetingsJoined = 1 \<rparr>",
          unfolded Let_def]
  from inst key ex_profile history candidates
  have "map rc_meeting
          (getRecommendations (Some ''key'') (\<lambda>p ms. None) (\<lambda>j. None) ex_store3 1758733200000 ''u1'') =
        take 5 (sort_key (\<lambda>m. - int (attendeesCount m))
                  (getAvailableMeetings ex_store3 1758733200000 ''u1''))"
    by blast
  then have ranked: "map rc_meeting
          (getRecommendations (Some ''key'') (\<lambda>p ms. None) (\<lambda>j. None) ex_store3 1758733200000 ''u1'') =
        [ex_rec ex_physics 1, ex_rec ex_chem 0]"
    by (simp add: ex_available ex_rec_def)
  from inst few
  have "getAvailableMeetings ex_store3 1758733200000 ''u1'' =
        map (\<lambda>m. \<lparr> rm_id = m_id m, rm_title = title m, rm_description = description m,
                    rm_subject = subject m, rm_level = level m,
                    rm_specialization = specialization m, rm_startTime = startTime m,
                    attendeesCount = length (filter (\<lambda>a. meetingId a = m_id m) (attendees ex_store3)) \<rparr>)
          (sort_key startTime (spec_Eligible ex_store3 1758733200000 ''u1''))"
    by blast
  also have "\<dots> = [ex_rec ex_chem 0, ex_rec ex_physics 1]"
    unfolding ex_eligible by (simp add: ex_rec_def ex_store3_def ex_chem_def ex_defs)
  finally have cands: "getAvailableMeetings ex_store3 1758733200000 ''u1'' =
                      [ex_rec ex_chem 0, ex_rec ex_physics 1]" .
  have whole: "getRecommendations (Some ''key'') (\<lambda>p ms. None) (\<lambda>j. None) ex_store3 1758733200000 ''u1'' =
     [\<lparr> rc_meeting = ex_rec ex_physics 1, rc_score = Jnum 50, rc_reason = Jstr ''Popular session'' \<rparr>,
      \<lparr> rc_meeting = ex_rec ex_chem 0, rc_score = Jnum 50, rc_reason = Jstr ''Popular session'' \<rparr>]"
    by (simp add: getRecommendations_def truthy_def ex_profile ex_available popular_def ex_rec_def)
  from ranked whole ex_eligible cands show ?thesis
    by - (intro conjI; assumption)
qed

text \<open>
  Three requests of a user with an attendance history and a non-empty eligible set on
  which Recommend returns the empty list, not the popularity ranking. An answer without
  a bracketed array is a malformed response. Without the API key the ranking
  collaborator is unavailable. And with twenty-one upcoming meetings of which the user
  attends the twenty earliest, the one eligible meeting is cut off before the attended
  ones are dropped: the candidate list is empty while the ranking call throws.
\<close>

theorem recommend_returns_empty:
  "truthy (Some ''key'')
   \<and> map_option totalMeetingsJoined (getUserProfile ex_store3 ''u1'') = Some 1
   \<and> spec_Eligible ex_store3 1758733200000 ''u1'' = [ex_physics, ex_chem]
   \<and> getAvailableMeetings ex_store3 1758733200000 ''u1'' = [ex_rec ex_chem 0, ex_rec ex_physics 1]
   \<and> jsonMatch ''Sorry, I cannot rank these.'' = None
   \<and> getRecommendations (Some ''key'') (\<lambda>p ms. Some ''Sorry, I cannot rank these.'') (\<lambda>j. None)
        ex_store3 1758733200000 ''u1'' = []
   \<and> getRecommendations None (\<lambda>p ms. None) (\<lambda>j. None) ex_store3 1758733200000 ''u1'' = []
   \<and> map_option totalMeetingsJoined (getUserProfile ex_busy ''u1'') = Some 20
   \<and> spec_Eligible ex_busy 0 ''u1'' = [ex_slot 20]
   \<and> getAvailableMeetings ex_busy 0 ''u1'' = []
   \<and> getRecommendations (Some ''key'') (\<lambda>p ms. None) (\<lambda>j. None) ex_busy 0 ''u1'' = []"
proof -
  have small: "truthy (Some ''key'')
     \<and> map_option totalMeetingsJoined (getUserProfile ex_store3 ''u1'') = Some 1
     \<and> jsonMatch ''Sorry, I cannot rank these.'' = None
     \<and> getRecommendations (Some ''key'') (\<lambda>p ms. Some ''Sorry, I cannot rank these.'') (\<lambda>j. None)
          ex_store3 1758733200000 ''u1'' = []
     \<and> getRecommendations None (\<lambda>p ms. None) (\<lambda>j. None) ex_store3 1758733200000 ''u1'' = []"
    by (simp add: getRecommendations_def truthy_def ex_profile ex_available jsonMatch_def)
  have history: "map_option totalMeetingsJoined (getUserProfile ex_busy ''u1'') = Some 20"
    by (simp add: getUserProfile_def user_findUnique_def ex_busy_def ex_defs Let_def)
  have eligible: "spec_Eligible ex_busy 0 ''u1'' = [ex_slot 20]"
    by (simp add: spec_Eligible_def ex_busy_def ex_slot_def upt_rec eval_nat_numeral)
  have cut: "getAvailableMeetings ex_busy 0 ''u1'' = []"
    by (simp add: getAvailableMeetings_def ex_busy_def ex_slot_def upt_rec)
  from history cut
  have none: "getRecommendations (Some ''key'') (\<lambda>p ms. None) (\<lambda>j. None) ex_busy 0 ''u1'' = []"
    by (auto simp add: getRecommendations_def truthy_def Let_def split: option.splits)
  from small history eligible cut none ex_eligible ex_available show ?thesis
    by - (elim conjE, intro conjI; assumption)
qed

end
